theory Spec2Isabelle
  imports Main "HOL-Library.Word" "HOL-Library.Char_ord" "HOL-Library.List_Lexorder"
begin

unbundle bit_operations_syntax

section \<open>The JavaScript platform functions the data layer calls\<close>

text \<open>
  The journal's data layer (\<^verbatim>\<open>src/lib/database.ts\<close>, the prompt scheduler, the telemetry
  outbox and the PIN utilities) is TypeScript running in a browser. The functions of this
  section are not code of the repository: they are the parts of the ECMAScript library the
  repository calls (number to string conversion, \<^verbatim>\<open>padStart\<close>, the \<^verbatim>\<open>Date\<close> getters,
  \<^verbatim>\<open>toISOString\<close>, the remainder operator), written out so that the repository's own
  functions can be embedded on top of them.

  A \<^verbatim>\<open>Date\<close> is its time value: milliseconds since 1970-01-01T00:00:00Z, an \<^typ>\<open>int\<close>.
  The device's time zone is a fixed offset \<open>tz\<close> in minutes, with the sign of
  \<^verbatim>\<open>getTimezoneOffset()\<close> (UTC minus local time: 480 for UTC-8, -120 for UTC+2).
  Counters and time values stay far inside the range where JavaScript's doubles are exact
  integers, so they are modelled by \<^typ>\<open>int\<close>.
\<close>

text \<open>
  The decimal digits of a non-negative integer. Division is on \<^typ>\<open>int\<close>, whose
  numerals divide in binary.
\<close>

definition digit_char :: "int \<Rightarrow> char" where
  "digit_char n = char_of (48 + n)"

function show_nat :: "int \<Rightarrow> string" where
  "show_nat n = (if n < 10 then [digit_char n] else show_nat (n div 10) @ [digit_char (n mod 10)])"
  by pat_completeness auto
termination
  by (relation "measure nat") auto

declare show_nat.simps [simp del]

text \<open>\<^verbatim>\<open>String(n)\<close> and \<^verbatim>\<open>n + ''\<close> for an integral number \<open>n\<close>.\<close>

definition number_to_string :: "int \<Rightarrow> string" where
  "number_to_string i = (if i < 0 then CHR ''-'' # show_nat (- i) else show_nat i)"

text \<open>\<^verbatim>\<open>s.padStart(n, c)\<close> for a one-character filler \<open>c\<close>.\<close>

definition padStart :: "nat \<Rightarrow> char \<Rightarrow> string \<Rightarrow> string" where
  "padStart n c s = replicate (n - length s) c @ s"

text \<open>
  The remainder operator \<^verbatim>\<open>%\<close> on integral numbers truncates: the result has the sign
  of the dividend. (Isabelle's \<open>mod\<close> floors.) A zero divisor gives NaN, written \<open>None\<close>.
\<close>

definition js_rem :: "int \<Rightarrow> int \<Rightarrow> int option" where
  "js_rem a b = (if b = 0 then None else Some (sgn a * (\<bar>a\<bar> mod \<bar>b\<bar>)))"

text \<open>
  The civil date of a day number (days since 1970-01-01). The day number is shifted to an
  era of 400 years that starts on 1 March of year 0; inside the era the day splits into
  the century, the four-year cycle, the year of the cycle and the day of that year (the
  year running from March to February, so that the leap day comes last).
\<close>

record civil =
  c_year :: int
  c_month :: int
  c_day :: int

definition civil_from_days :: "int \<Rightarrow> civil" where
  "civil_from_days z =
     (let z' = z + 719468;
          era = z' div 146097;
          doe = z' mod 146097;
          c = min (doe div 36524) 3;
          r1 = doe - 36524 * c;
          q = r1 div 1461;
          r2 = r1 mod 1461;
          y4 = min (r2 div 365) 3;
          doy = r2 - 365 * y4;
          mp = (5 * doy + 2) div 153;
          d = doy - (153 * mp + 2) div 5 + 1;
          m = (if mp < 10 then mp + 3 else mp - 9);
          y = 400 * era + 100 * c + 4 * q + y4 + (if m \<le> 2 then 1 else 0)
      in \<lparr>c_year = y, c_month = m, c_day = d\<rparr>)"

definition msPerDay :: int where
  "msPerDay = 86400000"

text \<open>The local day number of a time value, and the local-time getters of \<^verbatim>\<open>Date\<close>.\<close>

definition local_day :: "int \<Rightarrow> int \<Rightarrow> int" where
  "local_day tz t = (t - tz * 60000) div msPerDay"

definition getFullYear :: "int \<Rightarrow> int \<Rightarrow> int" where
  "getFullYear tz t = c_year (civil_from_days (local_day tz t))"

definition getMonth :: "int \<Rightarrow> int \<Rightarrow> int" where
  "getMonth tz t = c_month (civil_from_days (local_day tz t)) - 1"

definition getDate :: "int \<Rightarrow> int \<Rightarrow> int" where
  "getDate tz t = c_day (civil_from_days (local_day tz t))"

text \<open>
  \<^verbatim>\<open>d.setDate(n)\<close>: the day of the month becomes \<open>n\<close>, the local time of day stays; a
  value outside the month rolls over into the neighbouring month.
\<close>

definition setDate :: "int \<Rightarrow> int \<Rightarrow> int \<Rightarrow> int" where
  "setDate tz t n = t + (n - getDate tz t) * msPerDay"

text \<open>
  \<^verbatim>\<open>d.toISOString()\<close>: the UTC fields, the year on four digits between 0 and 9999 and
  on six digits with a sign outside.
\<close>

definition pad_num :: "nat \<Rightarrow> int \<Rightarrow> string" where
  "pad_num n i = padStart n CHR ''0'' (number_to_string i)"

definition iso_year :: "int \<Rightarrow> string" where
  "iso_year y =
     (if 0 \<le> y \<and> y \<le> 9999 then pad_num 4 y
      else (if y < 0 then CHR ''-'' else CHR ''+'') # pad_num 6 \<bar>y\<bar>)"

definition toISOString :: "int \<Rightarrow> string" where
  "toISOString t =
     (let c = civil_from_days (t div msPerDay); ms = t mod msPerDay
      in iso_year (c_year c) @ ''-'' @ pad_num 2 (c_month c) @ ''-'' @ pad_num 2 (c_day c) @
         ''T'' @ pad_num 2 (ms div 3600000) @ '':'' @ pad_num 2 (ms div 60000 mod 60) @ '':'' @
         pad_num 2 (ms div 1000 mod 60) @ ''.'' @ pad_num 3 (ms mod 1000) @ ''Z'')"

text \<open>
  The expression
  \<^verbatim>\<open>d.getFullYear() + '-' + String(d.getMonth() + 1).padStart(2, '0') + '-' + String(d.getDate()).padStart(2, '0')\<close>
  that \<^verbatim>\<open>getTodayLocal\<close>, \<^verbatim>\<open>updateStreak\<close>, \<^verbatim>\<open>canSwapToday\<close> and \<^verbatim>\<open>getTodayString\<close>
  each write out.
\<close>

definition ymd_string :: "int \<Rightarrow> int \<Rightarrow> string" where
  "ymd_string tz d =
     number_to_string (getFullYear tz d) @ ''-'' @
     padStart 2 CHR ''0'' (number_to_string (getMonth tz d + 1)) @ ''-'' @
     padStart 2 CHR ''0'' (number_to_string (getDate tz d))"

text \<open>
  JSON values, with \<open>JUndefined\<close> for a property that is present and holds
  \<^verbatim>\<open>undefined\<close>. \<^verbatim>\<open>JSON.stringify\<close> leaves such a property out of an object and
  writes \<^verbatim>\<open>null\<close> for it in an array. An object is the list of its properties in
  insertion order.
\<close>

datatype json =
    JNull
  | JUndefined
  | JBool bool
  | JNumber int
  | JString string
  | JArray "json list"
  | JObject "(string \<times> json) list"

definition hex_char :: "nat \<Rightarrow> char" where
  "hex_char n = (if n < 10 then char_of (48 + n) else char_of (87 + n))"

definition json_escape :: "char \<Rightarrow> string" where
  "json_escape ch =
     (if ch = CHR ''\"'' then [CHR 0x5C, CHR ''\"'']
      else if ch = CHR 0x5C then [CHR 0x5C, CHR 0x5C]
      else if ch = CHR 0x08 then [CHR 0x5C, CHR ''b'']
      else if ch = CHR 0x0C then [CHR 0x5C, CHR ''f'']
      else if ch = CHR 0x0A then [CHR 0x5C, CHR ''n'']
      else if ch = CHR 0x0D then [CHR 0x5C, CHR ''r'']
      else if ch = CHR 0x09 then [CHR 0x5C, CHR ''t'']
      else if (of_char ch :: nat) < 32
        then [CHR 0x5C, CHR ''u'', CHR ''0'', CHR ''0'',
              hex_char (of_char ch div 16), hex_char (of_char ch mod 16)]
      else [ch])"

definition json_quote :: "string \<Rightarrow> string" where
  "json_quote s = CHR ''\"'' # concat (map json_escape s) @ [CHR ''\"'']"

fun join :: "string \<Rightarrow> string list \<Rightarrow> string" where
  "join sep [] = []"
| "join sep [x] = x"
| "join sep (x # y # ys) = x @ sep @ join sep (y # ys)"

text \<open>
  \<^verbatim>\<open>JSON.stringify(v)\<close> without indentation. \<open>None\<close> is the result \<^verbatim>\<open>undefined\<close>
  (for a value that is itself undefined).
\<close>

fun JSON_stringify :: "json \<Rightarrow> string option"
  and stringify_elems :: "json list \<Rightarrow> string list"
  and stringify_props :: "(string \<times> json) list \<Rightarrow> string list" where
  "JSON_stringify JNull = Some ''null''"
| "JSON_stringify JUndefined = None"
| "JSON_stringify (JBool b) = Some (if b then ''true'' else ''false'')"
| "JSON_stringify (JNumber n) = Some (number_to_string n)"
| "JSON_stringify (JString s) = Some (json_quote s)"
| "JSON_stringify (JArray vs) = Some (''['' @ join '','' (stringify_elems vs) @ '']'')"
| "JSON_stringify (JObject ps) = Some (''{'' @ join '','' (stringify_props ps) @ ''}'')"
| "stringify_elems [] = []"
| "stringify_elems (v # vs) =
     (case JSON_stringify v of None \<Rightarrow> ''null'' | Some s \<Rightarrow> s) # stringify_elems vs"
| "stringify_props [] = []"
| "stringify_props ((k, v) # ps) =
     (case JSON_stringify v of
        None \<Rightarrow> stringify_props ps
      | Some s \<Rightarrow> (json_quote k @ '':'' @ s) # stringify_props ps)"

text \<open>
  The document \<^verbatim>\<open>JSON.stringify\<close> writes, as a tree: the value with the undefined
  properties of its objects left out and the undefined elements of its arrays turned into
  \<^verbatim>\<open>null\<close>. The indented text \<^verbatim>\<open>JSON.stringify(v, null, 2)\<close> is the rendering of this same
  tree, so the fields of the exported document are the keys of \<open>written v\<close>.
\<close>

fun written :: "json \<Rightarrow> json"
  and written_elems :: "json list \<Rightarrow> json list"
  and written_props :: "(string \<times> json) list \<Rightarrow> (string \<times> json) list" where
  "written (JArray vs) = JArray (written_elems vs)"
| "written (JObject ps) = JObject (written_props ps)"
| "written JNull = JNull"
| "written JUndefined = JUndefined"
| "written (JBool b) = JBool b"
| "written (JNumber n) = JNumber n"
| "written (JString s) = JString s"
| "written_elems [] = []"
| "written_elems (v # vs) = (if v = JUndefined then JNull else written v) # written_elems vs"
| "written_props [] = []"
| "written_props ((k, v) # ps) =
     (if v = JUndefined then written_props ps else (k, written v) # written_props ps)"

text \<open>Every property name that occurs in a JSON value, at any depth.\<close>

fun json_keys :: "json \<Rightarrow> string set"
  and json_keys_elems :: "json list \<Rightarrow> string set"
  and json_keys_props :: "(string \<times> json) list \<Rightarrow> string set" where
  "json_keys (JArray vs) = json_keys_elems vs"
| "json_keys (JObject ps) = json_keys_props ps"
| "json_keys JNull = {}"
| "json_keys JUndefined = {}"
| "json_keys (JBool b) = {}"
| "json_keys (JNumber n) = {}"
| "json_keys (JString s) = {}"
| "json_keys_elems [] = {}"
| "json_keys_elems (v # vs) = json_keys v \<union> json_keys_elems vs"
| "json_keys_props [] = {}"
| "json_keys_props ((k, v) # ps) = insert k (json_keys v \<union> json_keys_props ps)"

text \<open>
  Setting a property of an object, as the spread \<^verbatim>\<open>{...o, k: v}\<close> does: an existing
  property keeps its place and takes the new value, a new one goes last.
\<close>

fun obj_set :: "string \<Rightarrow> json \<Rightarrow> (string \<times> json) list \<Rightarrow> (string \<times> json) list" where
  "obj_set k v [] = [(k, v)]"
| "obj_set k v ((k', v') # ps) = (if k' = k then (k, v) # ps else (k', v') # obj_set k v ps)"

text \<open>
  Reading an array at a number: \<^verbatim>\<open>xs[i]\<close> is \<^verbatim>\<open>undefined\<close> (\<open>None\<close>) when \<open>i\<close> is
  NaN (\<open>None\<close>), negative or beyond the end.
\<close>

definition js_index :: "'a list \<Rightarrow> int option \<Rightarrow> 'a option" where
  "js_index xs i =
     (case i of
        None \<Rightarrow> None
      | Some n \<Rightarrow> if 0 \<le> n \<and> n < int (length xs) then Some (xs ! nat n) else None)"

text \<open>The truth value of an optional string: \<^verbatim>\<open>undefined\<close> and the empty string are falsy.\<close>

definition truthy :: "string option \<Rightarrow> bool" where
  "truthy s = (case s of None \<Rightarrow> False | Some v \<Rightarrow> v \<noteq> [])"

section \<open>The data model (\<^verbatim>\<open>src/lib/database.ts\<close>)\<close>

text \<open>
  The four interfaces of the store. An optional property is an \<open>option\<close>. Every
  interface has an \<^verbatim>\<open>id\<close>, and two have a \<^verbatim>\<open>created_at\<close>; a record field is a constant
  of its own, so these carry the initial of their interface (\<open>s_id\<close>, \<open>p_id\<close>, \<open>e_id\<close>,
  \<open>k_id\<close>; \<open>p_created_at\<close>, \<open>e_created_at\<close>), and the prompt's \<^verbatim>\<open>text\<close> is \<open>p_text\<close>.
\<close>

datatype theme = Light | Dark | System

datatype prompt_source = Seed | User

record Settings =
  s_id :: string
  pinSalt :: "string option"
  pinIterations :: "int option"
  pinHash :: "string option"
  lockTimeoutMinutes :: int
  dailyCueTime :: "string option"
  dailyCueEnabled :: bool
  notificationsEnabled :: bool
  telemetryOptIn :: bool
  telemetryAnonId :: "string option"
  telemetryActivationSent :: "bool option"
  telemetryConsecutiveDays :: "int option"
  telemetryLastCompletionDate :: "string option"
  telemetryD7EventSent :: "bool option"
  swapUsedDate :: "string option"
  lastPromptDate :: "string option"
  lastPromptId :: "string option"
  installAt :: string
  currentTheme :: theme

record Prompt =
  p_id :: string
  p_text :: string
  gratitude_prompt :: "string option"
  archived :: bool
  p_created_at :: string
  source :: prompt_source

record Entry =
  e_id :: string
  dateLocal :: string
  prompt_id :: string
  setback :: string
  protective_step :: string
  gratitude :: string
  e_created_at :: string
  edited_at :: "string option"
  duration_seconds :: "int option"

record StreakSummary =
  k_id :: string
  start_date :: string
  current_streak :: int
  longest_streak :: int
  last_entry_date :: "string option"

text \<open>
  The Dexie database \<^verbatim>\<open>db\<close>. The settings and the streak summary are only ever read
  and written under the key \<^verbatim>\<open>'main'\<close>, so each of these tables is its one optional row;
  \<^verbatim>\<open>prompts\<close> and \<^verbatim>\<open>entries\<close> are the rows in the order \<^verbatim>\<open>toArray()\<close> returns them.
  \<open>available\<close> says whether the storage engine answers: when it does not, every table
  operation of a call throws (the promise rejects).
\<close>

record JournalDB =
  available :: bool
  settings :: "Settings option"
  prompts :: "Prompt list"
  entries :: "Entry list"
  streakSummary :: "StreakSummary option"

datatype js_error = StorageError | ConstraintError | NoSeedPrompts | CurrentPromptNotFound | TypeError

section \<open>The streak engine (\<^verbatim>\<open>dbUtils\<close>)\<close>

text \<open>
  Every function that reads the clock takes the time value \<open>now\<close> of \<^verbatim>\<open>new Date()\<close> (one
  reading for the whole call) and, where it uses local getters, the zone offset \<open>tz\<close>. A
  function that writes to the store returns the store it leaves; \<open>Inl\<close> is a rejected
  promise.
\<close>

definition initializeStreakSummary :: "int \<Rightarrow> JournalDB \<Rightarrow> js_error + StreakSummary \<times> JournalDB" where
  "initializeStreakSummary now db =
     (if \<not> available db then Inl StorageError
      else case streakSummary db of
             Some existing \<Rightarrow> Inr (existing, db)
           | None \<Rightarrow>
               let newStreak = \<lparr>k_id = ''main'', start_date = toISOString now,
                                current_streak = 0, longest_streak = 0, last_entry_date = None\<rparr>
               in Inr (newStreak, db\<lparr>streakSummary := Some newStreak\<rparr>))"

definition getTodayLocal :: "int \<Rightarrow> int \<Rightarrow> string" where
  "getTodayLocal tz now =
     (let localDate = now - tz * 60000
      in number_to_string (getFullYear tz localDate) @ ''-'' @
         padStart 2 CHR ''0'' (number_to_string (getMonth tz localDate + 1)) @ ''-'' @
         padStart 2 CHR ''0'' (number_to_string (getDate tz localDate)))"

text \<open>
  The result of \<^verbatim>\<open>validateAndRecoverStreakData\<close>; its property \<^verbatim>\<open>streak\<close> is the field
  \<open>v_streak\<close> (the functions below have a local variable \<open>streak\<close>).
\<close>

record StreakValidation =
  isValid :: bool
  recovered :: bool
  v_streak :: StreakSummary

definition validateAndRecoverStreakData :: "int \<Rightarrow> JournalDB \<Rightarrow> js_error + StreakValidation \<times> JournalDB" where
  "validateAndRecoverStreakData now db =
     (if \<not> available db then
        (case initializeStreakSummary now db of
           Inl e \<Rightarrow> Inl e
         | Inr (newStreak, db') \<Rightarrow> Inr (\<lparr>isValid = False, recovered = True, v_streak = newStreak\<rparr>, db'))
      else case streakSummary db of
        None \<Rightarrow>
          (case initializeStreakSummary now db of
             Inl e \<Rightarrow> Inl e
           | Inr (newStreak, db') \<Rightarrow> Inr (\<lparr>isValid = False, recovered = True, v_streak = newStreak\<rparr>, db'))
      | Some streak \<Rightarrow>
          if current_streak streak < 0 \<or> longest_streak streak < 0 \<or>
             current_streak streak > longest_streak streak
          then
            let recoveredStreak =
                  \<lparr>k_id = ''main'',
                   start_date = (if start_date streak \<noteq> [] then start_date streak else toISOString now),
                   current_streak = max 0 (min (current_streak streak) (longest_streak streak)),
                   longest_streak = max 0 (max (longest_streak streak) (current_streak streak)),
                   last_entry_date = last_entry_date streak\<rparr>
            in Inr (\<lparr>isValid = False, recovered = True, v_streak = recoveredStreak\<rparr>,
                    db\<lparr>streakSummary := Some recoveredStreak\<rparr>)
          else Inr (\<lparr>isValid = True, recovered = False, v_streak = streak\<rparr>, db))"

record StreakUpdate =
  updated :: bool
  isFirstToday :: bool
  streakData :: StreakSummary

definition updateStreak :: "int \<Rightarrow> int \<Rightarrow> string \<Rightarrow> JournalDB \<Rightarrow> js_error + StreakUpdate \<times> JournalDB" where
  "updateStreak tz now entryDate db =
     (case initializeStreakSummary now db of
        Inl e \<Rightarrow> Inl e
      | Inr (streak, db1) \<Rightarrow>
          let yesterday = setDate tz now (getDate tz now - 1);
              yesterdayLocal = ymd_string tz yesterday;
              existingEntryToday = length (filter (\<lambda>e. dateLocal e = entryDate) (entries db1));
              isFirstToday = (existingEntryToday = 1)
          in if \<not> isFirstToday
             then Inr (\<lparr>updated = False, isFirstToday = False, streakData = streak\<rparr>, db1)
             else
               let streak1 =
                     (if \<not> truthy (last_entry_date streak)
                      then streak\<lparr>current_streak := 1, longest_streak := 1,
                                  start_date := toISOString now\<rparr>
                      else if last_entry_date streak = Some yesterdayLocal
                      then streak\<lparr>current_streak := current_streak streak + 1,
                                  longest_streak := max (longest_streak streak) (current_streak streak + 1)\<rparr>
                      else if last_entry_date streak \<noteq> Some entryDate
                      then streak\<lparr>current_streak := 1, start_date := toISOString now\<rparr>
                      else streak);
                   streak2 = streak1\<lparr>last_entry_date := Some entryDate\<rparr>
               in Inr (\<lparr>updated = True, isFirstToday = True, streakData = streak2\<rparr>,
                       db1\<lparr>streakSummary := Some streak2\<rparr>))"

definition streak_json :: "StreakSummary \<Rightarrow> json" where
  "streak_json s =
     JObject ([(''id'', JString (k_id s)), (''start_date'', JString (start_date s)),
               (''current_streak'', JNumber (current_streak s)),
               (''longest_streak'', JNumber (longest_streak s))] @
              (case last_entry_date s of None \<Rightarrow> [] | Some d \<Rightarrow> [(''last_entry_date'', JString d)]))"

definition resetStreakData :: "int \<Rightarrow> JournalDB \<Rightarrow> bool \<times> JournalDB" where
  "resetStreakData now db =
     (if \<not> available db then (False, db)
      else
        let db1 =
              (case streakSummary db of
                 None \<Rightarrow> db
               | Some currentStreak \<Rightarrow>
                   (case settings db of
                      None \<Rightarrow> db
                    | Some st \<Rightarrow>
                        db\<lparr>settings := Some (st\<lparr>lastPromptId :=
                              Some (''backup_streak_'' @ number_to_string now @ ''_'' @
                                    (case JSON_stringify (streak_json currentStreak) of
                                       None \<Rightarrow> ''undefined'' | Some j \<Rightarrow> j))\<rparr>)\<rparr>));
            resetStreak = \<lparr>k_id = ''main'', start_date = toISOString now,
                            current_streak = 0, longest_streak = 0, last_entry_date = None\<rparr>
        in (True, db1\<lparr>streakSummary := Some resetStreak\<rparr>))"

definition wipeAllData :: "JournalDB \<Rightarrow> js_error + JournalDB" where
  "wipeAllData db =
     (if \<not> available db then Inl StorageError
      else Inr (db\<lparr>settings := None, prompts := [], entries := [], streakSummary := None\<rparr>))"

section \<open>The prompt scheduler (\<^verbatim>\<open>promptUtils\<close>)\<close>

text \<open>The seed catalog: the text and the gratitude prompt of each of the ten prompts.\<close>

definition SEED_PROMPTS :: "(string \<times> string) list" where
  "SEED_PROMPTS =
     [(''Imagine losing your current home or living situation'',
       ''What aspects of your current living situation do you appreciate most?''),
      (''Consider if you lost your ability to communicate with loved ones'',
       ''Who in your life are you most grateful to be able to connect with?''),
      (''Visualize losing your current health and mobility'',
       ''What physical abilities or aspects of your health do you value most?''),
      (''Imagine your primary source of income disappearing'',
       ''What opportunities or resources do you currently have that support you?''),
      (''Consider losing access to the internet and digital connections'',
       ''What digital tools or online communities add value to your life?''),
      (''Visualize losing your independence and needing constant care'',
       ''What aspects of your independence and autonomy do you cherish?''),
      (''Imagine being unable to pursue your hobbies or interests'',
       ''What activities or interests bring you the most joy and fulfillment?''),
      (''Consider losing your ability to learn new things'',
       ''What recent learning or growth experiences have you valued?''),
      (''Visualize losing access to nature and the outdoors'',
       ''What aspects of the natural world do you find most meaningful?''),
      (''Imagine being unable to help or support others'',
       ''How has being able to contribute to others' lives enriched your own?'')]"

text \<open>
  The linear congruential generator. A number that may be NaN is an \<open>int option\<close>:
  NaN in, NaN out.
\<close>

definition pseudoRandom :: "int option \<Rightarrow> int option" where
  "pseudoRandom seed =
     (case seed of
        None \<Rightarrow> None
      | Some n \<Rightarrow> js_rem (1664525 * n + 1013904223) (2 ^ 32))"

text \<open>
  \<^verbatim>\<open>installDate\<close> is used only as \<^verbatim>\<open>new Date(installDate).getTime()\<close>: the functions take
  that time value, \<open>None\<close> when the string is not a date (NaN).
  \<open>daysSinceInstall\<close> is the \<^verbatim>\<open>Math.floor\<close> expression that \<^verbatim>\<open>getTodayPrompt\<close> and
  \<^verbatim>\<open>getFallbackPrompt\<close> share.
\<close>

definition daysSinceInstall :: "int \<Rightarrow> int option \<Rightarrow> int option" where
  "daysSinceInstall now installDate =
     (case installDate of None \<Rightarrow> None | Some t \<Rightarrow> Some ((now - t) div (1000 * 60 * 60 * 24)))"

text \<open>
  \<^verbatim>\<open>getTodayPrompt\<close> throws when no seed prompt is active. Its result is an array read,
  so it is \<^verbatim>\<open>undefined\<close> (\<open>None\<close>) when the index is NaN or negative.
\<close>

definition getTodayPrompt :: "int \<Rightarrow> int option \<Rightarrow> Prompt list \<Rightarrow> js_error + Prompt option" where
  "getTodayPrompt now installDate ps =
     (let seedPrompts = filter (\<lambda>p. source p = Seed \<and> \<not> archived p) ps
      in if length seedPrompts = 0 then Inl NoSeedPrompts
         else
           let index = (case pseudoRandom (daysSinceInstall now installDate) of
                          None \<Rightarrow> None
                        | Some r \<Rightarrow> js_rem r (int (length seedPrompts)))
           in Inr (js_index seedPrompts index))"

text \<open>
  \<^verbatim>\<open>Math.floor(Math.random() * n)\<close> is some index below \<open>n\<close>; the draw is the argument
  \<open>rnd\<close>, taken modulo \<open>n\<close>.
\<close>

definition getSwapPrompt :: "string \<Rightarrow> string option \<Rightarrow> Prompt list \<Rightarrow> nat \<Rightarrow> js_error + Prompt" where
  "getSwapPrompt currentPromptId lastPromptId' ps rnd =
     (let seedPrompts =
            filter (\<lambda>p. source p = Seed \<and> \<not> archived p \<and> p_id p \<noteq> currentPromptId \<and>
                        Some (p_id p) \<noteq> lastPromptId') ps
      in if length seedPrompts = 0
         then (case find (\<lambda>p. p_id p = currentPromptId) ps of
                 None \<Rightarrow> Inl CurrentPromptNotFound
               | Some current \<Rightarrow> Inr current)
         else Inr (seedPrompts ! (rnd mod length seedPrompts)))"

definition canSwapToday :: "int \<Rightarrow> int \<Rightarrow> string option \<Rightarrow> bool" where
  "canSwapToday tz now swapUsedDate' = (swapUsedDate' \<noteq> Some (ymd_string tz now))"

definition getTodayString :: "int \<Rightarrow> int \<Rightarrow> string" where
  "getTodayString tz now = ymd_string tz now"

record SwapResult =
  success :: bool
  newPrompt :: "Prompt option"
  error :: "string option"

definition swap_failure :: "string \<Rightarrow> SwapResult" where
  "swap_failure msg = \<lparr>success = False, newPrompt = None, error = Some msg\<rparr>"

text \<open>
  The body of \<^verbatim>\<open>swapTodayPrompt\<close> inside its \<^verbatim>\<open>try\<close>: \<open>Inl\<close> is an exception on its way to the
  \<^verbatim>\<open>catch\<close>. Reading \<^verbatim>\<open>currentPrompt.id\<close> of an undefined prompt is a \<open>TypeError\<close>.
\<close>

definition swapTodayPrompt_try ::
    "int \<Rightarrow> int \<Rightarrow> int option \<Rightarrow> nat \<Rightarrow> JournalDB \<Rightarrow> js_error + SwapResult \<times> JournalDB" where
  "swapTodayPrompt_try tz now installDate rnd db =
     (if \<not> available db then Inl StorageError
      else case settings db of
        None \<Rightarrow> Inr (swap_failure ''Settings not found'', db)
      | Some st \<Rightarrow>
          if \<not> canSwapToday tz now (swapUsedDate st)
          then Inr (swap_failure ''You can only swap once per day. Try again tomorrow.'', db)
          else
            (case getTodayPrompt now installDate (prompts db) of
               Inl e \<Rightarrow> Inl e
             | Inr None \<Rightarrow> Inl TypeError
             | Inr (Some currentPrompt) \<Rightarrow>
                 (case getSwapPrompt (p_id currentPrompt) (lastPromptId st) (prompts db) rnd of
                    Inl e \<Rightarrow> Inl e
                  | Inr newPrompt' \<Rightarrow>
                      if p_id newPrompt' = p_id currentPrompt
                      then Inr (swap_failure ''No alternative prompts available for swap'', db)
                      else
                        let todayString = getTodayString tz now
                        in Inr (\<lparr>success = True, newPrompt = Some newPrompt', error = None\<rparr>,
                                db\<lparr>settings := Some (st\<lparr>swapUsedDate := Some todayString,
                                                          lastPromptDate := Some todayString,
                                                          lastPromptId := Some (p_id newPrompt')\<rparr>)\<rparr>))))"

definition swapTodayPrompt ::
    "int \<Rightarrow> int \<Rightarrow> int option \<Rightarrow> nat \<Rightarrow> JournalDB \<Rightarrow> SwapResult \<times> JournalDB" where
  "swapTodayPrompt tz now installDate rnd db =
     (case swapTodayPrompt_try tz now installDate rnd db of
        Inl e \<Rightarrow> (swap_failure ''Failed to swap prompt. Please try again.'', db)
      | Inr r \<Rightarrow> r)"

text \<open>
  \<^verbatim>\<open>getFallbackPrompt\<close>: reading \<^verbatim>\<open>selectedSeed.text\<close> of an undefined catalog entry throws,
  and the \<^verbatim>\<open>catch\<close> returns the first prompt of the catalog.
\<close>

definition getFallbackPrompt :: "int \<Rightarrow> int option \<Rightarrow> Prompt" where
  "getFallbackPrompt now installDate =
     (let index = (case pseudoRandom (daysSinceInstall now installDate) of
                     None \<Rightarrow> None
                   | Some r \<Rightarrow> js_rem r (int (length SEED_PROMPTS)))
      in case (index, js_index SEED_PROMPTS index) of
           (Some i, Some selectedSeed) \<Rightarrow>
             \<lparr>p_id = ''seed-'' @ number_to_string (i + 1), p_text = fst selectedSeed,
              gratitude_prompt = Some (snd selectedSeed), archived = False,
              p_created_at = toISOString now, source = Seed\<rparr>
         | _ \<Rightarrow>
             \<lparr>p_id = ''fallback-1'', p_text = fst (hd SEED_PROMPTS),
              gratitude_prompt = Some (snd (hd SEED_PROMPTS)), archived = False,
              p_created_at = toISOString now, source = Seed\<rparr>)"

text \<open>
  The body of \<^verbatim>\<open>getCurrentPrompt\<close> inside its \<^verbatim>\<open>try\<close>, and the function with its
  \<^verbatim>\<open>catch\<close>. The result is a \<^verbatim>\<open>Promise<Prompt>\<close>; \<open>None\<close> is the promise resolving to
  \<^verbatim>\<open>undefined\<close>.
\<close>

definition getCurrentPrompt_try :: "int \<Rightarrow> int \<Rightarrow> int option \<Rightarrow> JournalDB \<Rightarrow> js_error + Prompt option" where
  "getCurrentPrompt_try tz now installDate db =
     (if \<not> available db then Inl StorageError
      else
        let todayString = getTodayString tz now;
            swapped =
              (case settings db of
                 None \<Rightarrow> None
               | Some st \<Rightarrow>
                   if swapUsedDate st = Some todayString \<and> truthy (lastPromptId st)
                   then find (\<lambda>p. Some (p_id p) = lastPromptId st) (prompts db)
                   else None)
        in case swapped of
             Some swappedPrompt \<Rightarrow> Inr (Some swappedPrompt)
           | None \<Rightarrow> getTodayPrompt now installDate (prompts db))"

definition getCurrentPrompt :: "int \<Rightarrow> int \<Rightarrow> int option \<Rightarrow> JournalDB \<Rightarrow> Prompt option" where
  "getCurrentPrompt tz now installDate db =
     (case getCurrentPrompt_try tz now installDate db of
        Inl e \<Rightarrow> Some (getFallbackPrompt now installDate)
      | Inr r \<Rightarrow> r)"

section \<open>The telemetry outbox (\<^verbatim>\<open>TelemetryService\<close>)\<close>

datatype event_type = Activation | DailyCompletion | D7Completion

text \<open>
  A queued event; its \<^verbatim>\<open>id\<close> and \<^verbatim>\<open>anonId\<close> are \<open>ev_id\<close> and \<open>ev_anonId\<close>. A number that may
  be NaN is an \<open>int option\<close>.
\<close>

record TelemetryEvent =
  ev_id :: string
  eventType :: event_type
  timestamp :: string
  ev_anonId :: string
  appVersion :: string
  platform :: string
  timezone :: string
  dayNumber :: "int option option"
  retryCount :: "int option"
  queuedAt :: string

record TelemetrySettings =
  isOptedIn :: bool
  anonId :: "string option"
  activationSent :: bool
  consecutiveDays :: int
  lastCompletionDate :: "string option"
  d7EventSent :: bool
  installDate :: string

text \<open>
  A \<^verbatim>\<open>Partial<TelemetrySettings>\<close>, the argument of \<^verbatim>\<open>updateTelemetrySettings\<close>: a property
  that is absent (or \<^verbatim>\<open>undefined\<close>) is \<open>None\<close>.
\<close>

record TelemetryUpdates =
  u_isOptedIn :: "bool option"
  u_anonId :: "string option"
  u_activationSent :: "bool option"
  u_consecutiveDays :: "int option"
  u_lastCompletionDate :: "string option"
  u_d7EventSent :: "bool option"

definition no_updates :: TelemetryUpdates where
  "no_updates = \<lparr>u_isOptedIn = None, u_anonId = None, u_activationSent = None,
      u_consecutiveDays = None, u_lastCompletionDate = None, u_d7EventSent = None\<rparr>"

text \<open>
  The service: the queue in memory and its copy under \<^verbatim>\<open>nvj_telemetry_queue\<close>. The state
  of a call is the service together with the database.
\<close>

record TelemetryService =
  eventQueue :: "TelemetryEvent list"
  storedQueue :: "TelemetryEvent list"

text \<open>
  What a call reads from its surroundings: the clock and the zone, the random suffix of
  \<^verbatim>\<open>Math.random().toString(36).substr(2, 9)\<close>, the platform and time zone names, and
  \<^verbatim>\<open>new Date(s).getTime()\<close> as the function \<open>parse\<close> (\<open>None\<close> is NaN).
\<close>

record TelemetryEnv =
  env_now :: int
  env_tz :: int
  env_random :: string
  env_platform :: string
  env_timezone :: string
  env_parse :: "string \<Rightarrow> int option"

definition saveQueueToStorage :: "TelemetryService \<Rightarrow> TelemetryService" where
  "saveQueueToStorage svc = svc\<lparr>storedQueue := eventQueue svc\<rparr>"

definition generateAnonId :: "TelemetryEnv \<Rightarrow> string" where
  "generateAnonId env = ''anon_'' @ number_to_string (env_now env) @ ''_'' @ env_random env"

text \<open>\<^verbatim>\<open>Math.ceil(diffTime / msPerDay)\<close> for integers is the negated floor of the negation.\<close>

definition getDaysSinceInstall :: "TelemetryEnv \<Rightarrow> JournalDB \<Rightarrow> int option" where
  "getDaysSinceInstall env db =
     (if \<not> available db then Some 0
      else case settings db of
        None \<Rightarrow> Some 0
      | Some st \<Rightarrow>
          if installAt st = [] then Some 0
          else (case env_parse env (installAt st) of
                  None \<Rightarrow> None
                | Some installTime \<Rightarrow>
                    Some (- ((- \<bar>env_now env - installTime\<bar>) div (1000 * 60 * 60 * 24)))))"

definition getTelemetrySettings :: "JournalDB \<Rightarrow> TelemetrySettings option" where
  "getTelemetrySettings db =
     (if \<not> available db then None
      else case settings db of
        None \<Rightarrow> None
      | Some st \<Rightarrow>
          Some \<lparr>isOptedIn = telemetryOptIn st,
                anonId = telemetryAnonId st,
                activationSent = (case telemetryActivationSent st of None \<Rightarrow> False | Some b \<Rightarrow> b),
                consecutiveDays = (case telemetryConsecutiveDays st of None \<Rightarrow> 0 | Some n \<Rightarrow> n),
                lastCompletionDate = telemetryLastCompletionDate st,
                d7EventSent = (case telemetryD7EventSent st of None \<Rightarrow> False | Some b \<Rightarrow> b),
                installDate = installAt st\<rparr>)"

text \<open>\<^verbatim>\<open>a ?? b\<close> on an optional property: the update when it is there, else what is stored.\<close>

definition updateTelemetrySettings :: "TelemetryUpdates \<Rightarrow> JournalDB \<Rightarrow> JournalDB" where
  "updateTelemetrySettings updates db =
     (if \<not> available db then db
      else case settings db of
        None \<Rightarrow> db
      | Some st \<Rightarrow>
          db\<lparr>settings := Some (st\<lparr>
            telemetryOptIn := (case u_isOptedIn updates of Some v \<Rightarrow> v | None \<Rightarrow> telemetryOptIn st),
            telemetryAnonId := (case u_anonId updates of Some v \<Rightarrow> Some v | None \<Rightarrow> telemetryAnonId st),
            telemetryActivationSent :=
              (case u_activationSent updates of Some v \<Rightarrow> Some v | None \<Rightarrow> telemetryActivationSent st),
            telemetryConsecutiveDays :=
              (case u_consecutiveDays updates of Some v \<Rightarrow> Some v | None \<Rightarrow> telemetryConsecutiveDays st),
            telemetryLastCompletionDate :=
              (case u_lastCompletionDate updates of Some v \<Rightarrow> Some v
               | None \<Rightarrow> telemetryLastCompletionDate st),
            telemetryD7EventSent :=
              (case u_d7EventSent updates of Some v \<Rightarrow> Some v | None \<Rightarrow> telemetryD7EventSent st)\<rparr>)\<rparr>)"

text \<open>
  \<^verbatim>\<open>createEvent\<close>; \<open>dayNumber'\<close> is \<open>None\<close> when the argument is left out. A stored anonymous
  id that is the empty string counts as missing.
\<close>

definition createEvent ::
    "TelemetryEnv \<Rightarrow> event_type \<Rightarrow> int option option \<Rightarrow> JournalDB \<Rightarrow> TelemetryEvent \<times> JournalDB" where
  "createEvent env eventType' dayNumber' db =
     (let telemetrySettings = getTelemetrySettings db;
          stored = (case telemetrySettings of None \<Rightarrow> None | Some ts \<Rightarrow> anonId ts);
          anonId' = (case stored of
                       None \<Rightarrow> generateAnonId env
                     | Some a \<Rightarrow> if a \<noteq> [] then a else generateAnonId env);
          db1 = (if \<not> truthy stored
                 then updateTelemetrySettings (no_updates\<lparr>u_anonId := Some anonId'\<rparr>) db
                 else db)
      in (\<lparr>ev_id = ''evt_'' @ number_to_string (env_now env) @ ''_'' @ env_random env,
           eventType = eventType',
           timestamp = toISOString (env_now env),
           ev_anonId = anonId',
           appVersion = ''0.1.0'',
           platform = env_platform env,
           timezone = env_timezone env,
           dayNumber = dayNumber',
           retryCount = Some 0,
           queuedAt = toISOString (env_now env)\<rparr>, db1))"

text \<open>\<^verbatim>\<open>d.toISOString().split('T')[0]\<close>: the text before the first \<^verbatim>\<open>T\<close>.\<close>

definition iso_date :: "int \<Rightarrow> string" where
  "iso_date t = takeWhile (\<lambda>ch. ch \<noteq> CHR ''T'') (toISOString t)"

text \<open>
  The two triggers. Each ends with a call of \<^verbatim>\<open>processQueue\<close> that is not awaited: the drain
  runs on its own afterwards and only removes events from the queue (delivered, or out of
  retries) or counts a retry, so the functions here return the state with the events they
  pushed.
\<close>

definition sendD7CompletionEvent ::
    "TelemetryEnv \<Rightarrow> TelemetryService \<times> JournalDB \<Rightarrow> TelemetryService \<times> JournalDB" where
  "sendD7CompletionEvent env state =
     (case state of (svc, db) \<Rightarrow>
        (case getTelemetrySettings db of
           None \<Rightarrow> state
         | Some telemetrySettings \<Rightarrow>
             if \<not> isOptedIn telemetrySettings \<or> d7EventSent telemetrySettings \<or>
                consecutiveDays telemetrySettings < 7
             then state
             else
               (case createEvent env D7Completion None db of (event, db1) \<Rightarrow>
                  (saveQueueToStorage (svc\<lparr>eventQueue := eventQueue svc @ [event]\<rparr>),
                   updateTelemetrySettings (no_updates\<lparr>u_d7EventSent := Some True\<rparr>) db1))))"

definition sendDailyCompletionEvent ::
    "TelemetryEnv \<Rightarrow> TelemetryService \<times> JournalDB \<Rightarrow> TelemetryService \<times> JournalDB" where
  "sendDailyCompletionEvent env state =
     (case state of (svc, db) \<Rightarrow>
        (case getTelemetrySettings db of
           None \<Rightarrow> state
         | Some telemetrySettings \<Rightarrow>
             if \<not> isOptedIn telemetrySettings then state
             else
               let today = iso_date (env_now env);
                   dayNumber' = getDaysSinceInstall env db
               in if lastCompletionDate telemetrySettings = Some today then state
                  else
                    (case createEvent env DailyCompletion (Some dayNumber') db of (event, db1) \<Rightarrow>
                       let svc1 = saveQueueToStorage (svc\<lparr>eventQueue := eventQueue svc @ [event]\<rparr>);
                           yesterday = setDate (env_tz env) (env_now env)
                                         (getDate (env_tz env) (env_now env) - 1);
                           yesterdayStr = iso_date yesterday;
                           newConsecutiveDays =
                             (if lastCompletionDate telemetrySettings = Some yesterdayStr
                              then consecutiveDays telemetrySettings + 1 else 1);
                           db2 = updateTelemetrySettings
                                   (no_updates\<lparr>u_lastCompletionDate := Some today,
                                      u_consecutiveDays := Some newConsecutiveDays,
                                      u_d7EventSent :=
                                        Some (if newConsecutiveDays \<ge> 7 then False
                                              else d7EventSent telemetrySettings)\<rparr>) db1
                       in if newConsecutiveDays = 7 \<and> \<not> d7EventSent telemetrySettings
                          then sendD7CompletionEvent env (svc1, db2)
                          else (svc1, db2))))"

section \<open>Export (\<^verbatim>\<open>dbUtils.exportDataWithProgress\<close>)\<close>

text \<open>
  A row as the JavaScript object the store returns: an optional property that is not set
  is not there. \<open>present\<close> keeps the properties that hold a value.
\<close>

definition opt_string :: "string option \<Rightarrow> json" where
  "opt_string v = (case v of None \<Rightarrow> JUndefined | Some s \<Rightarrow> JString s)"

definition opt_number :: "int option \<Rightarrow> json" where
  "opt_number v = (case v of None \<Rightarrow> JUndefined | Some n \<Rightarrow> JNumber n)"

definition opt_bool :: "bool option \<Rightarrow> json" where
  "opt_bool v = (case v of None \<Rightarrow> JUndefined | Some b \<Rightarrow> JBool b)"

definition present :: "(string \<times> json) list \<Rightarrow> (string \<times> json) list" where
  "present ps = filter (\<lambda>p. snd p \<noteq> JUndefined) ps"

definition theme_string :: "theme \<Rightarrow> string" where
  "theme_string t = (case t of Light \<Rightarrow> ''light'' | Dark \<Rightarrow> ''dark'' | System \<Rightarrow> ''system'')"

definition source_string :: "prompt_source \<Rightarrow> string" where
  "source_string s = (case s of Seed \<Rightarrow> ''seed'' | User \<Rightarrow> ''user'')"

definition settings_object :: "Settings \<Rightarrow> (string \<times> json) list" where
  "settings_object st =
     present
       [(''id'', JString (s_id st)),
        (''pinSalt'', opt_string (pinSalt st)),
        (''pinIterations'', opt_number (pinIterations st)),
        (''pinHash'', opt_string (pinHash st)),
        (''lockTimeoutMinutes'', JNumber (lockTimeoutMinutes st)),
        (''dailyCueTime'', opt_string (dailyCueTime st)),
        (''dailyCueEnabled'', JBool (dailyCueEnabled st)),
        (''notificationsEnabled'', JBool (notificationsEnabled st)),
        (''telemetryOptIn'', JBool (telemetryOptIn st)),
        (''telemetryAnonId'', opt_string (telemetryAnonId st)),
        (''telemetryActivationSent'', opt_bool (telemetryActivationSent st)),
        (''telemetryConsecutiveDays'', opt_number (telemetryConsecutiveDays st)),
        (''telemetryLastCompletionDate'', opt_string (telemetryLastCompletionDate st)),
        (''telemetryD7EventSent'', opt_bool (telemetryD7EventSent st)),
        (''swapUsedDate'', opt_string (swapUsedDate st)),
        (''lastPromptDate'', opt_string (lastPromptDate st)),
        (''lastPromptId'', opt_string (lastPromptId st)),
        (''installAt'', JString (installAt st)),
        (''currentTheme'', JString (theme_string (currentTheme st)))]"

record ExportMetadata =
  appName :: string
  exportAppVersion :: string
  exportedAt :: string
  entryCount :: int

text \<open>
  The export. The progress callback only reports to the user interface and is left out.
  The entries come ordered by \<^verbatim>\<open>created_at\<close> (strings compare by character code). The
  result's \<^verbatim>\<open>json\<close> is the text of \<^verbatim>\<open>JSON.stringify(exportData, null, 2)\<close>; the model returns
  the document that text holds, \<open>written exportData\<close>.
\<close>

definition exportDataWithProgress :: "int \<Rightarrow> JournalDB \<Rightarrow> js_error + json \<times> ExportMetadata" where
  "exportDataWithProgress now db =
     (if \<not> available db then Inl StorageError
      else
        let entries' = sort_key e_created_at (entries db);
            sanitizedSettings =
              (case settings db of
                 None \<Rightarrow> JNull
               | Some st \<Rightarrow>
                   JObject (obj_set ''pinHash'' JUndefined
                             (obj_set ''pinIterations'' JUndefined
                               (obj_set ''pinSalt'' JUndefined (settings_object st)))));
            metadata = \<lparr>appName = ''Negative Visualization Journal'', exportAppVersion = ''0.1.0'',
                          exportedAt = toISOString now, entryCount = int (length entries')\<rparr>;
            exportData =
              JObject
                [(''meta'', JObject [(''appName'', JString (appName metadata)),
                                     (''appVersion'', JString (exportAppVersion metadata)),
                                     (''exportedAt'', JString (exportedAt metadata)),
                                     (''entryCount'', JNumber (entryCount metadata))]),
                 (''entries'', JArray (map (\<lambda>entry.
                     JObject [(''id'', JString (e_id entry)),
                              (''createdAt'', JString (e_created_at entry)),
                              (''content'', JObject [(''setback'', JString (setback entry)),
                                                     (''protective_step'', JString (protective_step entry)),
                                                     (''gratitude'', JString (gratitude entry))]),
                              (''metadata'', JObject [(''dateLocal'', JString (dateLocal entry)),
                                                      (''prompt_id'', JString (prompt_id entry)),
                                                      (''edited_at'', opt_string (edited_at entry)),
                                                      (''duration_seconds'',
                                                         opt_number (duration_seconds entry))])])
                     entries')),
                 (''settings'', sanitizedSettings),
                 (''prompts'', JArray (map (\<lambda>p.
                     JObject [(''id'', JString (p_id p)),
                              (''text'', JString (p_text p)),
                              (''gratitude_prompt'', opt_string (gratitude_prompt p)),
                              (''archived'', JBool (archived p)),
                              (''source'', JString (source_string (source p))),
                              (''created_at'', JString (p_created_at p))])
                     (prompts db))),
                 (''streakSummary'',
                    (case streakSummary db of None \<Rightarrow> JUndefined | Some s \<Rightarrow> streak_json s))]
        in Inr (written exportData, metadata))"

section \<open>PIN hashing (\<^verbatim>\<open>cryptoUtils\<close>)\<close>

text \<open>
  A \<^verbatim>\<open>Uint8Array\<close> (and the \<^verbatim>\<open>ArrayBuffer\<close> behind it) is a list of bytes. A binary string,
  as \<^verbatim>\<open>btoa\<close> takes and \<^verbatim>\<open>atob\<close> returns, is a string whose characters are the bytes.

  \<^verbatim>\<open>btoa\<close> and \<^verbatim>\<open>atob\<close> are the platform's Base64 functions. \<open>b64_char\<close> is the alphabet
  (A-Z, a-z, 0-9, + and /) and \<open>b64_value\<close> its inverse. \<^verbatim>\<open>atob\<close> drops ASCII whitespace,
  accepts the padding only at the end of a text whose length is a multiple of four, and
  fails (\<open>None\<close>, an \<^verbatim>\<open>InvalidCharacterError\<close>) on any other character and on a single
  left-over character.
\<close>

type_synonym byte = "8 word"

definition b64_char :: "int \<Rightarrow> char" where
  "b64_char n =
     (if n < 26 then char_of (65 + n)
      else if n < 52 then char_of (71 + n)
      else if n < 62 then char_of (n - 4)
      else if n = 62 then CHR ''+'' else CHR ''/'')"

definition b64_value :: "char \<Rightarrow> int option" where
  "b64_value ch =
     (let k = (of_char ch :: int)
      in if 65 \<le> k \<and> k \<le> 90 then Some (k - 65)
         else if 97 \<le> k \<and> k \<le> 122 then Some (k - 71)
         else if 48 \<le> k \<and> k \<le> 57 then Some (k + 4)
         else if k = 43 then Some 62
         else if k = 47 then Some 63
         else None)"

fun btoa_groups :: "int list \<Rightarrow> string" where
  "btoa_groups (a # b # c # rest) =
     [b64_char (a div 4), b64_char ((a mod 4) * 16 + b div 16),
      b64_char ((b mod 16) * 4 + c div 64), b64_char (c mod 64)] @ btoa_groups rest"
| "btoa_groups [a, b] =
     [b64_char (a div 4), b64_char ((a mod 4) * 16 + b div 16),
      b64_char ((b mod 16) * 4), CHR ''='']"
| "btoa_groups [a] = [b64_char (a div 4), b64_char ((a mod 4) * 16), CHR ''='', CHR ''='']"
| "btoa_groups [] = []"

definition btoa :: "string \<Rightarrow> string" where
  "btoa binary = btoa_groups (map of_char binary)"

fun atob_groups :: "string \<Rightarrow> int list option" where
  "atob_groups (a # b # c # d # rest) =
     (if rest = [] \<and> c = CHR ''='' \<and> d = CHR ''=''
      then (case (b64_value a, b64_value b) of
              (Some x, Some y) \<Rightarrow> Some [x * 4 + y div 16]
            | _ \<Rightarrow> None)
      else if rest = [] \<and> d = CHR ''=''
      then (case (b64_value a, b64_value b, b64_value c) of
              (Some x, Some y, Some z) \<Rightarrow> Some [x * 4 + y div 16, (y mod 16) * 16 + z div 4]
            | _ \<Rightarrow> None)
      else (case (b64_value a, b64_value b, b64_value c, b64_value d) of
              (Some x, Some y, Some z, Some w) \<Rightarrow>
                (case atob_groups rest of
                   None \<Rightarrow> None
                 | Some bytes \<Rightarrow>
                     Some ([x * 4 + y div 16, (y mod 16) * 16 + z div 4, (z mod 4) * 64 + w] @ bytes))
            | _ \<Rightarrow> None))"
| "atob_groups [a, b, c] =
     (case (b64_value a, b64_value b, b64_value c) of
        (Some x, Some y, Some z) \<Rightarrow> Some [x * 4 + y div 16, (y mod 16) * 16 + z div 4]
      | _ \<Rightarrow> None)"
| "atob_groups [a, b] =
     (case (b64_value a, b64_value b) of
        (Some x, Some y) \<Rightarrow> Some [x * 4 + y div 16]
      | _ \<Rightarrow> None)"
| "atob_groups [a] = None"
| "atob_groups [] = Some []"

definition ascii_whitespace :: "char \<Rightarrow> bool" where
  "ascii_whitespace ch \<longleftrightarrow> (of_char ch :: int) \<in> {9, 10, 12, 13, 32}"

definition atob :: "string \<Rightarrow> string option" where
  "atob base64 =
     (case atob_groups (filter (\<lambda>ch. \<not> ascii_whitespace ch) base64) of
        None \<Rightarrow> None
      | Some bytes \<Rightarrow> Some (map char_of bytes))"

text \<open>The two conversions of \<^verbatim>\<open>cryptoUtils\<close>, each a loop over the bytes around the
  platform function.\<close>

definition arrayBufferToBase64 :: "byte list \<Rightarrow> string" where
  "arrayBufferToBase64 buffer = btoa (map (\<lambda>b. char_of (uint b)) buffer)"

definition base64ToArrayBuffer :: "string \<Rightarrow> byte list option" where
  "base64ToArrayBuffer base64 =
     (case atob base64 of
        None \<Rightarrow> None
      | Some binary \<Rightarrow> Some (map (\<lambda>ch. word_of_int (of_char ch)) binary))"

text \<open>\<^verbatim>\<open>new TextEncoder().encode(pin)\<close>: the bytes of the string (a PIN is ASCII).\<close>

definition encode :: "string \<Rightarrow> byte list" where
  "encode s = map (\<lambda>ch. word_of_int (of_char ch)) s"

record PinHashData =
  salt :: string
  iterations :: int
  hash :: string

text \<open>
  The loop of \<^verbatim>\<open>constantTimeEquals\<close>: \<^verbatim>\<open>result |= a.charCodeAt(i) ^ b.charCodeAt(i)\<close> over two
  strings of the same length.
\<close>

fun xor_accumulate :: "int \<Rightarrow> string \<Rightarrow> string \<Rightarrow> int" where
  "xor_accumulate result (x # xs) (y # ys) =
     xor_accumulate (result OR (of_char x XOR of_char y)) xs ys"
| "xor_accumulate result xs ys = result"

definition constantTimeEquals :: "string \<Rightarrow> string \<Rightarrow> bool" where
  "constantTimeEquals a b =
     (if length a \<noteq> length b then False else xor_accumulate 0 a b = 0)"

definition isValidPin :: "string \<Rightarrow> bool" where
  "isValidPin pin \<longleftrightarrow>
     length pin = 4 \<and> list_all (\<lambda>ch. 48 \<le> (of_char ch :: int) \<and> (of_char ch :: int) \<le> 57) pin"

text \<open>
  PBKDF2 with SHA-256 (\<^verbatim>\<open>crypto.subtle.importKey\<close> and \<^verbatim>\<open>deriveBits\<close> for 256 bits) is the
  parameter \<open>kdf\<close>: key material, salt and iteration count to derived bytes. The random salt
  of \<^verbatim>\<open>generateSalt\<close> is the parameter \<open>salt'\<close>. In \<^verbatim>\<open>verifyPin\<close> an exception (here: a stored
  salt that is not Base64) is caught and gives \<^verbatim>\<open>false\<close>.
\<close>

definition hashPin :: "(byte list \<Rightarrow> byte list \<Rightarrow> int \<Rightarrow> byte list) \<Rightarrow> byte list \<Rightarrow> string \<Rightarrow> PinHashData" where
  "hashPin kdf salt' pin =
     (let iterations' = 100000;
          derivedBits = kdf (encode pin) salt' iterations'
      in \<lparr>salt = arrayBufferToBase64 salt', iterations = iterations',
          hash = arrayBufferToBase64 derivedBits\<rparr>)"

definition verifyPin :: "(byte list \<Rightarrow> byte list \<Rightarrow> int \<Rightarrow> byte list) \<Rightarrow> string \<Rightarrow> PinHashData \<Rightarrow> bool" where
  "verifyPin kdf pin hashData =
     (case base64ToArrayBuffer (salt hashData) of
        None \<Rightarrow> False
      | Some saltBuffer \<Rightarrow>
          let derivedBits = kdf (encode pin) saltBuffer (iterations hashData);
              newHash = arrayBufferToBase64 derivedBits
          in constantTimeEquals newHash (hash hashData))"

section \<open>Saving an entry (\<^verbatim>\<open>handleSave\<close> in \<^verbatim>\<open>PromptEntry.tsx\<close>)\<close>

text \<open>
  \<^verbatim>\<open>handleSave\<close> is the one caller of \<^verbatim>\<open>updateStreak\<close>. It belongs to the entry form, and
  what it does to the store is modelled here: the two writes to the entries table, the
  streak update and the telemetry trigger.

  The entries table has the primary key \<^verbatim>\<open>&id\<close>. \<^verbatim>\<open>db.entries.add\<close> rejects a row whose key
  is already there (a \<open>ConstraintError\<close>); \<^verbatim>\<open>db.entries.put\<close> replaces the row with that key
  or, when there is none, adds the row. A new row takes its place in the order of the keys.
\<close>

definition entries_add :: "Entry \<Rightarrow> JournalDB \<Rightarrow> js_error + JournalDB" where
  "entries_add e db =
     (if \<not> available db then Inl StorageError
      else if e_id e \<in> set (map e_id (entries db)) then Inl ConstraintError
      else Inr (db\<lparr>entries := insort_key e_id e (entries db)\<rparr>))"

definition entries_put :: "Entry \<Rightarrow> JournalDB \<Rightarrow> js_error + JournalDB" where
  "entries_put e db =
     (if \<not> available db then Inl StorageError
      else if e_id e \<in> set (map e_id (entries db))
      then Inr (db\<lparr>entries := map (\<lambda>x. if e_id x = e_id e then e else x) (entries db)\<rparr>)
      else Inr (db\<lparr>entries := insort_key e_id e (entries db)\<rparr>))"

text \<open>
  The three fields of the form. \<^verbatim>\<open>trim\<close> removes white space at both ends (the characters
  of a string are bytes here, so the white space is the ASCII one).
\<close>

record FormData =
  f_setback :: string
  f_protective_step :: string
  f_gratitude :: string

definition js_whitespace :: "char \<Rightarrow> bool" where
  "js_whitespace ch \<longleftrightarrow> (of_char ch :: int) \<in> {9, 10, 11, 12, 13, 32}"

definition trim :: "string \<Rightarrow> string" where
  "trim s = rev (dropWhile js_whitespace (rev (dropWhile js_whitespace s)))"

definition validateForm :: "FormData \<Rightarrow> bool" where
  "validateForm formData \<longleftrightarrow>
     (trim (f_setback formData) \<noteq> [] \<and> length (f_setback formData) \<le> 280) \<and>
     (trim (f_protective_step formData) \<noteq> [] \<and> length (f_protective_step formData) \<le> 280) \<and>
     (trim (f_gratitude formData) \<noteq> [] \<and> length (f_gratitude formData) \<le> 280)"

text \<open>
  When the form opens, \<^verbatim>\<open>loadTodayPrompt\<close> looks for an entry dated \<^verbatim>\<open>getTodayLocal()\<close> and,
  if there is one, makes it the form's \<^verbatim>\<open>todayEntry\<close>; on a freshly loaded page
  \<^verbatim>\<open>todayEntry\<close> is \<^verbatim>\<open>null\<close> otherwise.
\<close>

definition loadTodayEntry :: "int \<Rightarrow> int \<Rightarrow> JournalDB \<Rightarrow> Entry option" where
  "loadTodayEntry tz now db =
     (if \<not> available db then None
      else find (\<lambda>e. dateLocal e = getTodayLocal tz now) (entries db))"

text \<open>
  The body of \<^verbatim>\<open>handleSave\<close> inside its \<^verbatim>\<open>try\<close>. The clock and the zone are those of \<open>env\<close>;
  \<open>inst\<close> is the time value of \<^verbatim>\<open>settings?.installAt || now\<close>, which goes to
  \<^verbatim>\<open>getCurrentPrompt\<close>; \<open>todayEntry'\<close> is the form's \<^verbatim>\<open>todayEntry\<close>. With a \<^verbatim>\<open>todayEntry\<close> the
  entry is edited and put back under its key; without one a new entry is made, dated
  \<^verbatim>\<open>getTodayLocal()\<close> and keyed by the clock, and added. Both branches then call
  \<^verbatim>\<open>updateStreak(today)\<close>, and the telemetry trigger follows when the answer says
  \<open>isFirstToday\<close>. Reading \<^verbatim>\<open>todayPrompt.id\<close> of an undefined prompt is a \<open>TypeError\<close>. The
  result is the streak answer, the entry that becomes the form's \<^verbatim>\<open>todayEntry\<close>, and the
  state.
\<close>

definition handleSave_try ::
    "TelemetryEnv \<Rightarrow> int option \<Rightarrow> FormData \<Rightarrow> Entry option \<Rightarrow> TelemetryService \<times> JournalDB \<Rightarrow>
       js_error + StreakUpdate \<times> Entry \<times> (TelemetryService \<times> JournalDB)" where
  "handleSave_try env inst formData todayEntry' state =
     (case state of (svc, db) \<Rightarrow>
        let today = getTodayLocal (env_tz env) (env_now env);
            now = toISOString (env_now env);
            todayPrompt = getCurrentPrompt (env_tz env) (env_now env) inst db;
            saved =
              (case todayEntry' of
                 Some existing \<Rightarrow>
                   let entry = existing\<lparr>setback := trim (f_setback formData),
                                         protective_step := trim (f_protective_step formData),
                                         gratitude := trim (f_gratitude formData),
                                         edited_at := Some now\<rparr>
                   in (case entries_put entry db of
                         Inl e \<Rightarrow> Inl e
                       | Inr db1 \<Rightarrow>
                           (case updateStreak (env_tz env) (env_now env) today db1 of
                              Inl e \<Rightarrow> Inl e
                            | Inr (streakResult, db2) \<Rightarrow> Inr (streakResult, entry, db2)))
               | None \<Rightarrow>
                   (case todayPrompt of
                      None \<Rightarrow> Inl TypeError
                    | Some prompt \<Rightarrow>
                        let entry = \<lparr>e_id = ''entry-'' @ number_to_string (env_now env),
                                     dateLocal = today,
                                     prompt_id = p_id prompt,
                                     setback = trim (f_setback formData),
                                     protective_step = trim (f_protective_step formData),
                                     gratitude = trim (f_gratitude formData),
                                     e_created_at = now,
                                     edited_at = None,
                                     duration_seconds = None\<rparr>
                        in (case entries_add entry db of
                              Inl e \<Rightarrow> Inl e
                            | Inr db1 \<Rightarrow>
                                (case updateStreak (env_tz env) (env_now env) today db1 of
                                   Inl e \<Rightarrow> Inl e
                                 | Inr (streakResult, db2) \<Rightarrow> Inr (streakResult, entry, db2)))))
        in case saved of
             Inl e \<Rightarrow> Inl e
           | Inr (streakResult, entry, db2) \<Rightarrow>
               Inr (streakResult, entry,
                    if isFirstToday streakResult then sendDailyCompletionEvent env (svc, db2)
                    else (svc, db2)))"

text \<open>
  \<^verbatim>\<open>handleSave\<close>: nothing happens when the form is not valid, and the \<^verbatim>\<open>catch\<close> reports the
  failure to the user. (An exception can only come before the first write: once the write
  to the entries table has gone through, the store answers.) The result is the streak
  answer if the save went through, the form's \<^verbatim>\<open>todayEntry\<close>, and the state.
\<close>

definition handleSave ::
    "TelemetryEnv \<Rightarrow> int option \<Rightarrow> FormData \<Rightarrow> Entry option \<Rightarrow> TelemetryService \<times> JournalDB \<Rightarrow>
       StreakUpdate option \<times> Entry option \<times> (TelemetryService \<times> JournalDB)" where
  "handleSave env inst formData todayEntry' state =
     (if \<not> validateForm formData then (None, todayEntry', state)
      else case handleSave_try env inst formData todayEntry' state of
             Inl e \<Rightarrow> (None, todayEntry', state)
           | Inr (streakResult, entry, state') \<Rightarrow> (Some streakResult, Some entry, state'))"

section \<open>Facts about the platform functions\<close>

subsection \<open>Numbers as strings\<close>

lemma digit_char_code: "0 \<le> n \<Longrightarrow> n < 10 \<Longrightarrow> (of_char (digit_char n) :: int) = 48 + n"
  by (simp add: digit_char_def)

lemma digit_char_inj:
  assumes "0 \<le> a" "a < 10" "0 \<le> b" "b < 10" and "digit_char a = digit_char b"
  shows "a = b"
proof -
  from assms(5) have "(of_char (digit_char a) :: int) = of_char (digit_char b)" by simp
  with assms(1-4) show "a = b" by (simp add: digit_char_code)
qed

lemma digit_char_not_minus:
  assumes "0 \<le> n" "n < 10"
  shows "digit_char n \<noteq> CHR ''-''"
proof
  assume "digit_char n = CHR ''-''"
  then have "(of_char (digit_char n) :: int) = of_char CHR ''-''" by simp
  with assms show False by (simp add: digit_char_code)
qed

lemma show_nat_small: "n < 10 \<Longrightarrow> show_nat n = [digit_char n]"
  by (simp add: show_nat.simps)

lemma show_nat_big: "\<not> n < 10 \<Longrightarrow> show_nat n = show_nat (n div 10) @ [digit_char (n mod 10)]"
  by (subst show_nat.simps) simp

lemma show_nat_not_Nil: "show_nat n \<noteq> []"
  by (cases "n < 10") (simp_all add: show_nat_small show_nat_big)

lemma show_nat_inj:
  assumes "0 \<le> a" "0 \<le> b" and "show_nat a = show_nat b"
  shows "a = b"
  using assms
proof (induction a arbitrary: b rule: show_nat.induct)
  case (1 a)
  show ?case
  proof (cases "a < 10")
    case True
    show ?thesis
    proof (cases "b < 10")
      case True
      with \<open>a < 10\<close> "1.prems" show ?thesis
        by (simp add: show_nat_small digit_char_inj)
    next
      case False
      with \<open>a < 10\<close> "1.prems" show_nat_not_Nil [of "b div 10"] show ?thesis
        by (simp add: show_nat_small show_nat_big)
    qed
  next
    case False
    show ?thesis
    proof (cases "b < 10")
      case True
      with \<open>\<not> a < 10\<close> "1.prems" show_nat_not_Nil [of "a div 10"] show ?thesis
        by (simp add: show_nat_small show_nat_big)
    next
      case bF: False
      from False bF "1.prems"
      have e: "show_nat (a div 10) = show_nat (b div 10)" "digit_char (a mod 10) = digit_char (b mod 10)"
        by (simp_all add: show_nat_big)
      from False bF have p: "0 \<le> a div 10" "0 \<le> b div 10" by simp_all
      from "1.IH" [OF False p e(1)] have "a div 10 = b div 10" .
      moreover from e(2) have "a mod 10 = b mod 10" by (simp add: digit_char_inj)
      ultimately show ?thesis by (metis div_mult_mod_eq)
    qed
  qed
qed

lemma show_nat_no_minus: "0 \<le> n \<Longrightarrow> CHR ''-'' \<notin> set (show_nat n)"
proof (induction n rule: show_nat.induct)
  case (1 n)
  show ?case
  proof (cases "n < 10")
    case True
    then show ?thesis using digit_char_not_minus [of n] "1.prems" by (auto simp: show_nat_small)
  next
    case False
    then have "0 \<le> n div 10" by simp
    with False show ?thesis using "1.IH" digit_char_not_minus [of "n mod 10"]
      by (auto simp: show_nat_big)
  qed
qed

lemma number_to_string_inj: "number_to_string a = number_to_string b \<Longrightarrow> a = b"
proof -
  assume e: "number_to_string a = number_to_string b"
  have hd_neg: "\<And>i. i < 0 \<Longrightarrow> hd (number_to_string i) = CHR ''-''"
    by (simp add: number_to_string_def)
  have hd_pos: "\<And>i. \<not> i < 0 \<Longrightarrow> hd (number_to_string i) \<noteq> CHR ''-''"
  proof -
    fix i :: int assume n: "\<not> i < 0"
    then have "number_to_string i = show_nat i" by (simp add: number_to_string_def)
    moreover from n have "CHR ''-'' \<notin> set (show_nat i)" by (simp add: show_nat_no_minus)
    ultimately show "hd (number_to_string i) \<noteq> CHR ''-''"
      using show_nat_not_Nil [of i] by (metis hd_in_set)
  qed
  show "a = b"
  proof (cases "a < 0")
    case True
    with e hd_pos [of b] hd_neg [of a] have "b < 0" by metis
    with True e have "show_nat (- a) = show_nat (- b)" by (simp add: number_to_string_def)
    with True \<open>b < 0\<close> have "- a = - b" by (intro show_nat_inj) simp_all
    then show ?thesis by simp
  next
    case False
    with e hd_pos [of a] hd_neg [of b] have "\<not> b < 0" by metis
    with False e have "show_nat a = show_nat b" by (simp add: number_to_string_def)
    with False \<open>\<not> b < 0\<close> show ?thesis by (intro show_nat_inj) simp_all
  qed
qed

lemma digit_char_zero: "digit_char 0 = CHR ''0''"
  by code_simp

lemma pad2_digits:
  assumes "0 \<le> i" "i < 100"
  shows "padStart 2 CHR ''0'' (number_to_string i) = [digit_char (i div 10), digit_char (i mod 10)]"
proof (cases "i < 10")
  case True
  then show ?thesis using assms
    by (simp add: padStart_def number_to_string_def show_nat_small digit_char_zero)
next
  case False
  moreover from assms have "i div 10 < 10" by simp
  ultimately show ?thesis using assms
    by (simp add: padStart_def number_to_string_def show_nat_big show_nat_small)
qed

lemma two_digits_inj:
  assumes "0 \<le> i" "i < 100" "0 \<le> j" "j < 100"
    and "digit_char (i div 10) = digit_char (j div 10)"
    and "digit_char (i mod 10) = digit_char (j mod 10)"
  shows "i = j"
proof -
  from assms(1-4) have "0 \<le> i div 10" "i div 10 < 10" "0 \<le> j div 10" "j div 10 < 10" by simp_all
  then have "i div 10 = j div 10" using assms(5) by (rule digit_char_inj)
  moreover from assms(6) have "i mod 10 = j mod 10" by (simp add: digit_char_inj)
  ultimately show ?thesis by (metis div_mult_mod_eq)
qed

subsection \<open>The calendar\<close>

text \<open>
  The day number of a civil date, the inverse of \<open>civil_from_days\<close>: it is what makes two
  different days have two different dates.
\<close>

definition days_from_civil :: "civil \<Rightarrow> int" where
  "days_from_civil cv =
     (let m = c_month cv;
          y = c_year cv - (if m \<le> 2 then 1 else 0);
          era = y div 400;
          yoe = y mod 400;
          mp = (if m > 2 then m - 3 else m + 9);
          doy = (153 * mp + 2) div 5 + c_day cv - 1;
          doe = 36524 * (yoe div 100) + 1461 * (yoe mod 100 div 4) + 365 * (yoe mod 4) + doy
      in era * 146097 + doe - 719468)"

lemma civil_fields:
  fixes z :: int
  defines "doe \<equiv> (z + 719468) mod 146097"
  defines "c \<equiv> min (doe div 36524) 3"
  defines "r1 \<equiv> doe - 36524 * c"
  defines "q \<equiv> r1 div 1461"
  defines "r2 \<equiv> r1 mod 1461"
  defines "y4 \<equiv> min (r2 div 365) 3"
  defines "doy \<equiv> r2 - 365 * y4"
  defines "mp \<equiv> (5 * doy + 2) div 153"
  shows "0 \<le> c \<and> c \<le> 3 \<and> 0 \<le> q \<and> q \<le> 24 \<and> 0 \<le> y4 \<and> y4 \<le> 3 \<and> 0 \<le> doy \<and> doy \<le> 365
         \<and> 0 \<le> mp \<and> mp \<le> 11"
proof -
  have doe: "0 \<le> doe" "doe < 146097" by (simp_all add: doe_def)
  have c: "0 \<le> c" "c \<le> 3" using doe by (simp_all add: c_def)
  have r1: "0 \<le> r1" "r1 \<le> 36524" using doe unfolding r1_def c_def by (auto simp: min_def)
  have q: "0 \<le> q" "q \<le> 24" using r1 unfolding q_def by auto
  have r2: "0 \<le> r2" "r2 < 1461" by (simp_all add: r2_def)
  have y4: "0 \<le> y4" "y4 \<le> 3" using r2 by (simp_all add: y4_def)
  have doy: "0 \<le> doy" "doy \<le> 365" using r2 unfolding doy_def y4_def by (auto simp: min_def)
  have mp: "0 \<le> mp" "mp \<le> 11" using doy unfolding mp_def by auto
  show ?thesis using c q y4 doy mp by simp
qed

lemma year_of_era_parts:
  fixes c q y4 :: int
  assumes "0 \<le> c" "c \<le> 3" "0 \<le> q" "q \<le> 24" "0 \<le> y4" "y4 \<le> 3"
  shows "(100 * c + 4 * q + y4) div 100 = c"
    and "(100 * c + 4 * q + y4) mod 100 div 4 = q"
    and "(100 * c + 4 * q + y4) mod 4 = y4"
proof -
  have "(100 * c + (4 * q + y4)) div 100 = c" using assms by simp
  then show "(100 * c + 4 * q + y4) div 100 = c" by (simp add: add.assoc)
  have "(100 * c + (4 * q + y4)) mod 100 = 4 * q + y4" using assms by simp
  then have "(100 * c + 4 * q + y4) mod 100 = 4 * q + y4" by (simp add: add.assoc)
  moreover have "(4 * q + y4) div 4 = q" using assms by simp
  ultimately show "(100 * c + 4 * q + y4) mod 100 div 4 = q" by simp
  show "(100 * c + 4 * q + y4) mod 4 = y4" using assms by arith
qed

lemma civil_from_days_parts:
  obtains era c q y4 doy mp :: int where
    "civil_from_days z =
       \<lparr>c_year = 400 * era + (100 * c + 4 * q + y4) +
                  (if (if mp < 10 then mp + 3 else mp - 9) \<le> 2 then 1 else 0),
        c_month = (if mp < 10 then mp + 3 else mp - 9),
        c_day = doy - (153 * mp + 2) div 5 + 1\<rparr>"
    and "0 \<le> c" "c \<le> 3" "0 \<le> q" "q \<le> 24" "0 \<le> y4" "y4 \<le> 3"
    and "0 \<le> doy" "doy \<le> 365" "0 \<le> mp" "mp \<le> 11"
    and "mp = (5 * doy + 2) div 153"
    and "era * 146097 + (36524 * c + 1461 * q + 365 * y4 + doy) = z + 719468"
proof -
  define doe where "doe = (z + 719468) mod 146097"
  define era where "era = (z + 719468) div 146097"
  define c where "c = min (doe div 36524) 3"
  define r1 where "r1 = doe - 36524 * c"
  define q where "q = r1 div 1461"
  define r2 where "r2 = r1 mod 1461"
  define y4 where "y4 = min (r2 div 365) 3"
  define doy where "doy = r2 - 365 * y4"
  define mp where "mp = (5 * doy + 2) div 153"
  note defs = doe_def c_def r1_def q_def r2_def y4_def doy_def mp_def
  have bb: "0 \<le> c \<and> c \<le> 3 \<and> 0 \<le> q \<and> q \<le> 24 \<and> 0 \<le> y4 \<and> y4 \<le> 3 \<and> 0 \<le> doy \<and> doy \<le> 365
         \<and> 0 \<le> mp \<and> mp \<le> 11"
    unfolding defs by (rule civil_fields)
  have cv: "civil_from_days z =
       \<lparr>c_year = 400 * era + (100 * c + 4 * q + y4) +
                  (if (if mp < 10 then mp + 3 else mp - 9) \<le> 2 then 1 else 0),
        c_month = (if mp < 10 then mp + 3 else mp - 9),
        c_day = doy - (153 * mp + 2) div 5 + 1\<rparr>"
    unfolding civil_from_days_def Let_def
    unfolding era_def [symmetric] doe_def [symmetric]
    unfolding c_def [symmetric]
    unfolding r1_def [symmetric]
    unfolding q_def [symmetric] r2_def [symmetric]
    unfolding y4_def [symmetric]
    unfolding doy_def [symmetric]
    unfolding mp_def [symmetric]
    by (simp only: add.assoc)
  have e7: "36524 * c + 1461 * q + 365 * y4 + doy = doe"
    unfolding doy_def r2_def q_def r1_def by simp
  have e8: "era * 146097 + doe = z + 719468" by (simp add: era_def doe_def)
  from e7 e8 have "era * 146097 + (36524 * c + 1461 * q + 365 * y4 + doy) = z + 719468"
    by simp
  with cv bb mp_def that show thesis by blast
qed

lemma days_from_civil_inverse: "days_from_civil (civil_from_days z) = z"
proof -
  obtain era c q y4 doy mp :: int where
    cv: "civil_from_days z =
       \<lparr>c_year = 400 * era + (100 * c + 4 * q + y4) +
                  (if (if mp < 10 then mp + 3 else mp - 9) \<le> 2 then 1 else 0),
        c_month = (if mp < 10 then mp + 3 else mp - 9),
        c_day = doy - (153 * mp + 2) div 5 + 1\<rparr>"
    and b: "0 \<le> c" "c \<le> 3" "0 \<le> q" "q \<le> 24" "0 \<le> y4" "y4 \<le> 3"
    and mp: "0 \<le> mp" "mp \<le> 11"
    and z: "era * 146097 + (36524 * c + 1461 * q + 365 * y4 + doy) = z + 719468"
    by (rule civil_from_days_parts [of z]) blast
  define m where "m = (if mp < 10 then mp + 3 else mp - 9)"
  define yoe where "yoe = 100 * c + 4 * q + y4"
  have mp': "(if m > 2 then m - 3 else m + 9) = mp"
    using mp by (auto simp: m_def)
  have yoe: "0 \<le> yoe" "yoe < 400" using b by (auto simp: yoe_def)
  have e1: "(400 * era + yoe) div 400 = era" using yoe by simp
  have e2: "(400 * era + yoe) mod 400 = yoe" using yoe by simp
  have e3: "yoe div 100 = c" "yoe mod 100 div 4 = q" "yoe mod 4 = y4"
    unfolding yoe_def using year_of_era_parts [OF b] by blast+
  have e6: "(153 * mp + 2) div 5 + (doy - (153 * mp + 2) div 5 + 1) - 1 = doy" by simp
  have "days_from_civil (civil_from_days z) =
        era * 146097 + (36524 * c + 1461 * q + 365 * y4 + doy) - 719468"
    unfolding cv days_from_civil_def Let_def
    unfolding m_def [symmetric] yoe_def [symmetric]
    by (simp only: civil.simps mp' e1 e2 e3 e6 add_diff_cancel_right')
  then show ?thesis using z by simp
qed

lemma civil_from_days_inj: "civil_from_days a = civil_from_days b \<Longrightarrow> a = b"
  by (metis days_from_civil_inverse)

lemma month_day_of_doy:
  fixes doy :: int
  assumes "mp = (5 * doy + 2) div 153"
  shows "1 \<le> doy - (153 * mp + 2) div 5 + 1 \<and> doy - (153 * mp + 2) div 5 + 1 \<le> 31"
proof -
  define k where "k = (153 * mp + 2) div 5"
  have m1: "153 * mp \<le> 5 * doy + 2" and m2: "5 * doy + 2 < 153 * mp + 153"
    unfolding assms by linarith+
  have k1: "5 * k \<le> 153 * mp + 2" and k2: "153 * mp + 2 < 5 * k + 5"
    unfolding k_def by linarith+
  from m1 m2 k1 k2 have "k \<le> doy" "doy - k \<le> 30" by linarith+
  then show ?thesis unfolding k_def by simp
qed

lemma civil_month_day_range:
  "1 \<le> c_month (civil_from_days z) \<and> c_month (civil_from_days z) \<le> 12 \<and>
   1 \<le> c_day (civil_from_days z) \<and> c_day (civil_from_days z) \<le> 31"
proof -
  obtain era c q y4 doy mp :: int where
    cv: "civil_from_days z =
       \<lparr>c_year = 400 * era + (100 * c + 4 * q + y4) +
                  (if (if mp < 10 then mp + 3 else mp - 9) \<le> 2 then 1 else 0),
        c_month = (if mp < 10 then mp + 3 else mp - 9),
        c_day = doy - (153 * mp + 2) div 5 + 1\<rparr>"
    and mp: "0 \<le> mp" "mp \<le> 11"
    and mpd: "mp = (5 * doy + 2) div 153"
    by (rule civil_from_days_parts [of z]) blast
  from mp have "1 \<le> (if mp < 10 then mp + 3 else mp - 9) \<and> (if mp < 10 then mp + 3 else mp - 9) \<le> 12"
    by auto
  moreover note month_day_of_doy [OF mpd]
  ultimately show ?thesis unfolding cv by (simp only: civil.simps)
qed

subsection \<open>Date strings\<close>

lemma ymd_string_inj:
  assumes "ymd_string tz a = ymd_string tz b"
  shows "local_day tz a = local_day tz b"
proof -
  define ca where "ca = civil_from_days (local_day tz a)"
  define cb where "cb = civil_from_days (local_day tz b)"
  have ra: "0 \<le> c_month ca" "c_month ca < 100" "0 \<le> c_day ca" "c_day ca < 100"
    using civil_month_day_range [of "local_day tz a"] unfolding ca_def by linarith+
  have rb: "0 \<le> c_month cb" "c_month cb < 100" "0 \<le> c_day cb" "c_day cb < 100"
    using civil_month_day_range [of "local_day tz b"] unfolding cb_def by linarith+
  have sa: "ymd_string tz a = number_to_string (c_year ca) @
      [CHR ''-'', digit_char (c_month ca div 10), digit_char (c_month ca mod 10),
       CHR ''-'', digit_char (c_day ca div 10), digit_char (c_day ca mod 10)]"
    using ra by (simp add: ymd_string_def getFullYear_def getMonth_def getDate_def ca_def [symmetric] pad2_digits)
  have sb: "ymd_string tz b = number_to_string (c_year cb) @
      [CHR ''-'', digit_char (c_month cb div 10), digit_char (c_month cb mod 10),
       CHR ''-'', digit_char (c_day cb div 10), digit_char (c_day cb mod 10)]"
    using rb by (simp add: ymd_string_def getFullYear_def getMonth_def getDate_def cb_def [symmetric] pad2_digits)
  from assms have e: "number_to_string (c_year ca) = number_to_string (c_year cb)"
    "digit_char (c_month ca div 10) = digit_char (c_month cb div 10)"
    "digit_char (c_month ca mod 10) = digit_char (c_month cb mod 10)"
    "digit_char (c_day ca div 10) = digit_char (c_day cb div 10)"
    "digit_char (c_day ca mod 10) = digit_char (c_day cb mod 10)"
    unfolding sa sb by simp_all
  have y: "c_year ca = c_year cb" using e(1) by (rule number_to_string_inj)
  have m: "c_month ca = c_month cb" using two_digits_inj [OF ra(1,2) rb(1,2) e(2,3)] .
  have d: "c_day ca = c_day cb" using two_digits_inj [OF ra(3,4) rb(3,4) e(4,5)] .
  from y m d have "ca = cb" by simp
  then show ?thesis unfolding ca_def cb_def by (rule civil_from_days_inj)
qed

lemma ymd_string_eq_iff: "ymd_string tz a = ymd_string tz b \<longleftrightarrow> local_day tz a = local_day tz b"
proof
  assume "ymd_string tz a = ymd_string tz b"
  then show "local_day tz a = local_day tz b" by (rule ymd_string_inj)
next
  assume "local_day tz a = local_day tz b"
  then show "ymd_string tz a = ymd_string tz b"
    by (simp add: ymd_string_def getFullYear_def getMonth_def getDate_def)
qed

lemma local_day_yesterday: "local_day tz (setDate tz now (getDate tz now - 1)) = local_day tz now - 1"
proof -
  have "setDate tz now (getDate tz now - 1) = now - msPerDay"
    by (simp add: setDate_def)
  moreover have "(now - 86400000 - tz * 60000) div 86400000 = (now - tz * 60000) div 86400000 - 1"
    by linarith
  ultimately show ?thesis by (simp add: local_day_def msPerDay_def)
qed

lemma ymd_string_truthy: "truthy (Some (ymd_string tz t))"
  by (simp add: truthy_def ymd_string_def)

section \<open>Sample data for the examples\<close>

text \<open>An entry.\<close>

definition sample_entry :: Entry where
  "sample_entry = \<lparr>e_id = ''entry-1'', dateLocal = '''', prompt_id = ''seed-1'',
      setback = ''a'', protective_step = ''b'', gratitude = ''c'',
      e_created_at = ''2024-01-01T08:00:00.000Z'', edited_at = None, duration_seconds = None\<rparr>"

text \<open>
  A settings row and a prompt table for the examples: the ten seed prompts under the ids
  seed-1 to seed-10, in the order of their keys (the order \<^verbatim>\<open>toArray()\<close> returns).
\<close>

definition sample_settings :: Settings where
  "sample_settings =
     \<lparr>s_id = ''main'', pinSalt = None, pinIterations = None, pinHash = None,
      lockTimeoutMinutes = 5, dailyCueTime = None, dailyCueEnabled = False,
      notificationsEnabled = False, telemetryOptIn = False, telemetryAnonId = None,
      telemetryActivationSent = None, telemetryConsecutiveDays = None,
      telemetryLastCompletionDate = None, telemetryD7EventSent = None,
      swapUsedDate = None, lastPromptDate = None, lastPromptId = None,
      installAt = ''2024-01-01T08:00:00.000Z'', currentTheme = System\<rparr>"

definition seed_row :: "nat \<Rightarrow> Prompt" where
  "seed_row i =
     \<lparr>p_id = ''seed-'' @ number_to_string (int i + 1), p_text = fst (SEED_PROMPTS ! i),
      gratitude_prompt = Some (snd (SEED_PROMPTS ! i)), archived = False,
      p_created_at = ''2024-01-01T08:00:00.000Z'', source = Seed\<rparr>"

definition seeded_prompts :: "Prompt list" where
  "seeded_prompts = map seed_row [0, 9, 1, 2, 3, 4, 5, 6, 7, 8]"

section \<open>Streak properties\<close>

subsection \<open>What \<^verbatim>\<open>updateStreak\<close> does with the local date\<close>

text \<open>
  \<^verbatim>\<open>updateStreak\<close> compares the stored \<open>last_entry_date\<close> with the date of the day before
  the clock's local day. When it is called with the local date of \<open>now\<close>, and exactly one
  entry has that date, it adds one to the streak after a day that directly follows the last
  one, and starts again at 1 after a gap.
\<close>

lemma updateStreak_with_local_date:
  assumes "available db" and "streakSummary db = Some s"
    and "length (filter (\<lambda>e. dateLocal e = ymd_string tz now) (entries db)) = 1"
    and "last_entry_date s = Some (ymd_string tz t0)"
  shows "local_day tz now = local_day tz t0 + 1 \<Longrightarrow>
           updateStreak tz now (ymd_string tz now) db =
             Inr (\<lparr>updated = True, isFirstToday = True,
                   streakData = s\<lparr>current_streak := current_streak s + 1,
                     longest_streak := max (longest_streak s) (current_streak s + 1),
                     last_entry_date := Some (ymd_string tz now)\<rparr>\<rparr>,
                  db\<lparr>streakSummary := Some (s\<lparr>current_streak := current_streak s + 1,
                     longest_streak := max (longest_streak s) (current_streak s + 1),
                     last_entry_date := Some (ymd_string tz now)\<rparr>)\<rparr>)"
    and "local_day tz t0 + 2 \<le> local_day tz now \<Longrightarrow>
           updateStreak tz now (ymd_string tz now) db =
             Inr (\<lparr>updated = True, isFirstToday = True,
                   streakData = s\<lparr>current_streak := 1, start_date := toISOString now,
                     last_entry_date := Some (ymd_string tz now)\<rparr>\<rparr>,
                  db\<lparr>streakSummary := Some (s\<lparr>current_streak := 1,
                     start_date := toISOString now,
                     last_entry_date := Some (ymd_string tz now)\<rparr>)\<rparr>)"
proof -
  assume "local_day tz now = local_day tz t0 + 1"
  with assms show "updateStreak tz now (ymd_string tz now) db =
             Inr (\<lparr>updated = True, isFirstToday = True,
                   streakData = s\<lparr>current_streak := current_streak s + 1,
                     longest_streak := max (longest_streak s) (current_streak s + 1),
                     last_entry_date := Some (ymd_string tz now)\<rparr>\<rparr>,
                  db\<lparr>streakSummary := Some (s\<lparr>current_streak := current_streak s + 1,
                     longest_streak := max (longest_streak s) (current_streak s + 1),
                     last_entry_date := Some (ymd_string tz now)\<rparr>)\<rparr>)"
    by (simp add: updateStreak_def initializeStreakSummary_def Let_def ymd_string_truthy
          ymd_string_eq_iff local_day_yesterday)
next
  assume "local_day tz t0 + 2 \<le> local_day tz now"
  with assms show "updateStreak tz now (ymd_string tz now) db =
             Inr (\<lparr>updated = True, isFirstToday = True,
                   streakData = s\<lparr>current_streak := 1, start_date := toISOString now,
                     last_entry_date := Some (ymd_string tz now)\<rparr>\<rparr>,
                  db\<lparr>streakSummary := Some (s\<lparr>current_streak := 1,
                     start_date := toISOString now,
                     last_entry_date := Some (ymd_string tz now)\<rparr>)\<rparr>)"
    by (simp add: updateStreak_def initializeStreakSummary_def Let_def ymd_string_truthy
          ymd_string_eq_iff local_day_yesterday)
qed

subsection \<open>Consecutive days through \<^verbatim>\<open>handleSave\<close>\<close>

text \<open>
  Opening the form and saving: the form's \<^verbatim>\<open>todayEntry\<close> is what \<^verbatim>\<open>loadTodayPrompt\<close> finds
  on a freshly loaded page, and \<^verbatim>\<open>handleSave\<close> runs at the same clock reading.
  \<open>open_and_save_at\<close> does so at each of the given clock readings in turn.
\<close>

definition open_and_save ::
    "TelemetryEnv \<Rightarrow> int option \<Rightarrow> FormData \<Rightarrow> TelemetryService \<times> JournalDB \<Rightarrow>
       StreakUpdate option \<times> Entry option \<times> (TelemetryService \<times> JournalDB)" where
  "open_and_save env inst formData state =
     handleSave env inst formData (loadTodayEntry (env_tz env) (env_now env) (snd state)) state"

fun open_and_save_at ::
    "TelemetryEnv \<Rightarrow> int option \<Rightarrow> FormData \<Rightarrow> int list \<Rightarrow> TelemetryService \<times> JournalDB \<Rightarrow>
       TelemetryService \<times> JournalDB" where
  "open_and_save_at env inst formData [] state = state"
| "open_and_save_at env inst formData (t # ts) state =
     open_and_save_at env inst formData ts
       (snd (snd (open_and_save (env\<lparr>env_now := t\<rparr>) inst formData state)))"

text \<open>
  A new journal on a device eight hours behind UTC, installed at local midnight of
  1 January 2024: the settings row, the ten seed prompts, no entries and the freshly
  initialized streak summary (both counters 0, no last entry date); the outbox is empty and
  telemetry is off. And a filled-in form.
\<close>

definition new_journal :: "TelemetryService \<times> JournalDB" where
  "new_journal =
     (\<lparr>eventQueue = [], storedQueue = []\<rparr>,
      \<lparr>available = True, settings = Some sample_settings, prompts = seeded_prompts,
       entries = [],
       streakSummary = Some \<lparr>k_id = ''main'', start_date = ''2024-01-01T08:00:00.000Z'',
          current_streak = 0, longest_streak = 0, last_entry_date = None\<rparr>\<rparr>)"

definition journal_env :: TelemetryEnv where
  "journal_env = \<lparr>env_now = 1704096000000, env_tz = 480, env_random = ''x7f3k2m9q'',
      env_platform = ''Linux'', env_timezone = ''America/Los_Angeles'',
      env_parse = (\<lambda>s. Some 1704096000000)\<rparr>"

definition sample_form :: FormData where
  "sample_form = \<lparr>f_setback = ''lost my keys'', f_protective_step = ''keep a spare'',
      f_gratitude = ''a warm home''\<rparr>"

text \<open>What the claims speak of: the dates of the entries and the summary's three fields.\<close>

definition streak_view :: "TelemetryService \<times> JournalDB \<Rightarrow> string list \<times> (int \<times> int \<times> string option) option" where
  "streak_view state =
     (map dateLocal (entries (snd state)),
      map_option (\<lambda>s. (current_streak s, longest_streak s, last_entry_date s))
        (streakSummary (snd state)))"

text \<open>
  Claim C1 says that after the first entry of each of \<open>N\<close> consecutive calendar days, each
  followed by \<^verbatim>\<open>updateStreak\<close>, \<open>current_streak\<close> and \<open>longest_streak\<close> are \<open>N\<close>. The user
  opens the new journal at 07:00 local time on 1, 2 and 3 January 2024 and saves an entry
  each time. The three days are consecutive, each save adds a new entry and is followed by
  \<^verbatim>\<open>updateStreak\<close>, and the summary ends at \<open>current_streak = 1\<close>, \<open>longest_streak = 1\<close>:
  \<^verbatim>\<open>handleSave\<close> takes the date from \<^verbatim>\<open>getTodayLocal()\<close>, which before 08:00 on this device is
  the date of the day before, while \<^verbatim>\<open>updateStreak\<close> compares the stored date with the local
  date of yesterday, so that every day looks like the first after a gap.
\<close>

theorem handleSave_streak_stays_at_one:
  "map (ymd_string 480) [1704121200000, 1704207600000, 1704294000000] =
     [''2024-01-01'', ''2024-01-02'', ''2024-01-03''] \<and>
   streak_view new_journal = ([], Some (0, 0, None)) \<and>
   streak_view (open_and_save_at journal_env (Some 1704096000000) sample_form
       [1704121200000, 1704207600000, 1704294000000] new_journal) =
     ([''2023-12-31'', ''2024-01-01'', ''2024-01-02''], Some (1, 1, Some ''2024-01-02''))"
  by code_simp

subsection \<open>A save on a date that already has an entry\<close>

text \<open>
  Claim C2 says that for a date \<open>D\<close> that had an entry before the save, \<^verbatim>\<open>updateStreak(D)\<close>
  answers \<open>isFirstToday = false\<close> and leaves the summary as it was. The first entry is
  saved at noon of 1 January 2024 (the date is 2024-01-01, the summary 1, 1). When the user
  opens the form again at 13:00, the entry of that date is the form's \<^verbatim>\<open>todayEntry\<close>, and
  saving edits it: \<^verbatim>\<open>handleSave\<close> puts the row back under its key and calls
  \<^verbatim>\<open>updateStreak\<close>, which counts one row for the date and answers \<open>isFirstToday = true\<close>.
  When the form is opened at 07:00 on 2 January instead, \<^verbatim>\<open>getTodayLocal()\<close> still gives
  2024-01-01, the save is again an edit of that entry, and \<^verbatim>\<open>updateStreak\<close> finds the last
  entry date equal to yesterday's date and raises both counters to 2.
\<close>

definition streak_answer :: "StreakUpdate option \<times> Entry option \<times> (TelemetryService \<times> JournalDB) \<Rightarrow>
    (bool \<times> bool) option \<times> string list \<times> (int \<times> int \<times> string option) option" where
  "streak_answer result =
     (map_option (\<lambda>r. (updated r, isFirstToday r)) (fst result),
      streak_view (snd (snd result)))"

theorem handleSave_edit_counts_as_first:
  "streak_answer (open_and_save (journal_env\<lparr>env_now := 1704139200000\<rparr>)
       (Some 1704096000000) sample_form new_journal) =
     (Some (True, True), [''2024-01-01''], Some (1, 1, Some ''2024-01-01'')) \<and>
   streak_answer (open_and_save (journal_env\<lparr>env_now := 1704142800000\<rparr>)
       (Some 1704096000000) sample_form
       (open_and_save_at journal_env (Some 1704096000000) sample_form [1704139200000]
          new_journal)) =
     (Some (True, True), [''2024-01-01''], Some (1, 1, Some ''2024-01-01'')) \<and>
   streak_answer (open_and_save (journal_env\<lparr>env_now := 1704207600000\<rparr>)
       (Some 1704096000000) sample_form
       (open_and_save_at journal_env (Some 1704096000000) sample_form [1704139200000]
          new_journal)) =
     (Some (True, True), [''2024-01-01''], Some (2, 2, Some ''2024-01-01''))"
  by code_simp

subsection \<open>The streak invariant\<close>

text \<open>
  The states of the store that the streak operations can reach. At the start there is no
  summary row. A step is one of the four operations, with any clock reading and any
  argument, or a change to the other tables (entries, settings, prompts, the engine's
  availability), which the rest of the application makes and which leaves the summary row
  as it is.
\<close>

inductive reachable :: "JournalDB \<Rightarrow> bool" where
  start: "streakSummary db = None \<Longrightarrow> reachable db"
| initialize: "reachable db \<Longrightarrow> initializeStreakSummary now db = Inr (s, db') \<Longrightarrow> reachable db'"
| update: "reachable db \<Longrightarrow> updateStreak tz now entryDate db = Inr (r, db') \<Longrightarrow> reachable db'"
| validate: "reachable db \<Longrightarrow> validateAndRecoverStreakData now db = Inr (v, db') \<Longrightarrow> reachable db'"
| reset: "reachable db \<Longrightarrow> resetStreakData now db = (ok, db') \<Longrightarrow> reachable db'"
| other_tables: "reachable db \<Longrightarrow>
     reachable (db\<lparr>available := a, settings := st, prompts := ps, entries := es\<rparr>)"

text \<open>
  The inequality alone is not preserved by \<^verbatim>\<open>updateStreak\<close>: its gap branch sets
  \<open>current_streak\<close> to 1 and leaves \<open>longest_streak\<close>, which is fine only because a summary
  with a last entry date has counted at least one day. \<open>streak_ok\<close> adds that.
\<close>

definition streak_ok :: "StreakSummary \<Rightarrow> bool" where
  "streak_ok s \<longleftrightarrow>
     0 \<le> current_streak s \<and> current_streak s \<le> longest_streak s \<and>
     (truthy (last_entry_date s) \<longrightarrow> 1 \<le> longest_streak s)"

definition summary_ok :: "JournalDB \<Rightarrow> bool" where
  "summary_ok db \<longleftrightarrow> (case streakSummary db of None \<Rightarrow> True | Some s \<Rightarrow> streak_ok s)"

lemma initializeStreakSummary_ok:
  assumes "summary_ok db" and "initializeStreakSummary now db = Inr (s, db')"
  shows "summary_ok db' \<and> streak_ok s \<and> streakSummary db' = Some s"
  using assms
  by (auto simp: initializeStreakSummary_def summary_ok_def streak_ok_def truthy_def Let_def
        split: if_splits option.splits)

lemma updateStreak_ok:
  assumes "summary_ok db" and "updateStreak tz now entryDate db = Inr (r, db')"
  shows "summary_ok db'"
proof -
  from assms(2) obtain s db1 where i: "initializeStreakSummary now db = Inr (s, db1)"
    by (auto simp: updateStreak_def split: sum.splits)
  from initializeStreakSummary_ok [OF assms(1) i]
  have ok1: "summary_ok db1" and ok: "streak_ok s" by simp_all
  show ?thesis
  proof (cases "length (filter (\<lambda>e. dateLocal e = entryDate) (entries db1)) = 1")
    case False
    with assms(2) i have "db' = db1" by (simp add: updateStreak_def Let_def)
    with ok1 show ?thesis by simp
  next
    case True
    with assms(2) i obtain s2 where db': "db' = db1\<lparr>streakSummary := Some s2\<rparr>"
      and s2: "s2 =
         (if \<not> truthy (last_entry_date s)
          then s\<lparr>current_streak := 1, longest_streak := 1, start_date := toISOString now\<rparr>
          else if last_entry_date s =
                  Some (ymd_string tz (setDate tz now (getDate tz now - 1)))
          then s\<lparr>current_streak := current_streak s + 1,
                 longest_streak := max (longest_streak s) (current_streak s + 1)\<rparr>
          else if last_entry_date s \<noteq> Some entryDate
          then s\<lparr>current_streak := 1, start_date := toISOString now\<rparr>
          else s)\<lparr>last_entry_date := Some entryDate\<rparr>"
      by (auto simp: updateStreak_def Let_def)
    from ok have "streak_ok s2"
      unfolding s2 streak_ok_def by (auto simp: truthy_def)
    then show ?thesis by (simp add: db' summary_ok_def)
  qed
qed

lemma validateAndRecoverStreakData_ok:
  assumes "summary_ok db" and "validateAndRecoverStreakData now db = Inr (v, db')"
  shows "summary_ok db'"
proof (cases "available db")
  case False
  with assms(2) show ?thesis
    by (simp add: validateAndRecoverStreakData_def initializeStreakSummary_def)
next
  case True
  show ?thesis
  proof (cases "streakSummary db")
    case None
    with True assms(2) obtain s where "initializeStreakSummary now db = Inr (s, db')"
      by (auto simp: validateAndRecoverStreakData_def split: sum.splits)
    from initializeStreakSummary_ok [OF assms(1) this] show ?thesis by simp
  next
    case (Some s)
    with assms(1) have "streak_ok s" by (simp add: summary_ok_def)
    then have "\<not> (current_streak s < 0 \<or> longest_streak s < 0 \<or>
                   current_streak s > longest_streak s)"
      by (auto simp: streak_ok_def)
    with True Some assms(2) have "db' = db"
      by (simp add: validateAndRecoverStreakData_def)
    with assms(1) show ?thesis by simp
  qed
qed

lemma resetStreakData_ok:
  assumes "summary_ok db" and "resetStreakData now db = (ok, db')"
  shows "summary_ok db'"
  using assms
  by (auto simp: resetStreakData_def summary_ok_def streak_ok_def truthy_def Let_def
        split: if_splits option.splits)

lemma reachable_summary_ok: "reachable db \<Longrightarrow> summary_ok db"
proof (induction rule: reachable.induct)
  case (start db)
  then show ?case by (simp add: summary_ok_def)
next
  case (initialize db now s db')
  then show ?case using initializeStreakSummary_ok by blast
next
  case (update db tz now entryDate r db')
  then show ?case using updateStreak_ok by blast
next
  case (validate db now v db')
  then show ?case using validateAndRecoverStreakData_ok by blast
next
  case (reset db now ok db')
  then show ?case using resetStreakData_ok by blast
next
  case (other_tables db a st ps es)
  then show ?case by (simp add: summary_ok_def)
qed

text \<open>
  Claim C3. In every state that \<^verbatim>\<open>initializeStreakSummary\<close>, \<^verbatim>\<open>updateStreak\<close>,
  \<^verbatim>\<open>validateAndRecoverStreakData\<close> and \<^verbatim>\<open>resetStreakData\<close> can reach, the summary row
  satisfies \<open>0 \<le> current_streak \<le> longest_streak\<close>.
\<close>

theorem reachable_streak_invariant:
  assumes "reachable db" and "streakSummary db = Some s"
  shows "0 \<le> current_streak s \<and> current_streak s \<le> longest_streak s"
  using reachable_summary_ok [OF assms(1)] assms(2)
  by (simp add: summary_ok_def streak_ok_def)

text \<open>
  A reachable state: from the empty store, the first entry of 1 January 2024 is saved and
  counted; the summary then holds \<open>current_streak = 1\<close> and \<open>longest_streak = 1\<close>.
\<close>

definition empty_db :: JournalDB where
  "empty_db = \<lparr>available = True, settings = None, prompts = [], entries = [],
      streakSummary = None\<rparr>"

definition first_day_summary :: StreakSummary where
  "first_day_summary = \<lparr>k_id = ''main'', start_date = ''2024-01-01T08:00:00.000Z'',
      current_streak = 1, longest_streak = 1, last_entry_date = Some ''2024-01-01''\<rparr>"

theorem reachable_streak_invariant_witness:
  "reachable (empty_db\<lparr>entries := [sample_entry\<lparr>dateLocal := ''2024-01-01''\<rparr>],
                      streakSummary := Some first_day_summary\<rparr>) \<and>
   0 \<le> current_streak first_day_summary \<and>
   current_streak first_day_summary \<le> longest_streak first_day_summary"
proof -
  let ?db1 = "empty_db\<lparr>available := True, settings := None, prompts := [],
                 entries := [sample_entry\<lparr>dateLocal := ''2024-01-01''\<rparr>]\<rparr>"
  let ?db2 = "empty_db\<lparr>entries := [sample_entry\<lparr>dateLocal := ''2024-01-01''\<rparr>],
                      streakSummary := Some first_day_summary\<rparr>"
  have "reachable empty_db" by (rule reachable.start) (simp add: empty_db_def)
  then have r1: "reachable ?db1" by (rule reachable.other_tables)
  have "updateStreak 480 1704096000000 ''2024-01-01'' ?db1 =
          Inr (\<lparr>updated = True, isFirstToday = True, streakData = first_day_summary\<rparr>, ?db2)"
    by code_simp
  with r1 have r2: "reachable ?db2" by (rule reachable.update)
  from reachable_streak_invariant [OF r2] r2 show ?thesis by simp
qed

section \<open>The local date\<close>

text \<open>
  \<^verbatim>\<open>getTodayLocal\<close> subtracts the zone offset from the time value and then reads the result
  with the local getters, which subtract the offset again: it formats the instant
  \<open>now - tz\<close> minutes in local time. With a zero offset that is the local date.
\<close>

lemma getTodayLocal_shift: "getTodayLocal tz now = ymd_string tz (now - tz * 60000)"
  by (simp add: getTodayLocal_def ymd_string_def Let_def)

lemma getTodayLocal_utc: "getTodayLocal 0 now = ymd_string 0 now"
  by (simp add: getTodayLocal_shift)

text \<open>
  Claim C4 says that \<^verbatim>\<open>getTodayLocal\<close> returns the calendar date of the clock's instant in
  the device's zone, for every instant and every offset. On a device eight hours behind UTC
  (offset 480) at 2024-01-01T11:00:00Z, which is 03:00 on 1 January there, it returns
  2023-12-31; the expression that \<^verbatim>\<open>updateStreak\<close>, \<^verbatim>\<open>getTodayString\<close> and the function's own
  \<^verbatim>\<open>catch\<close> branch use gives 2024-01-01. Two hours ahead of UTC (offset -120) at
  2024-01-01T21:30:00Z, which is 23:30 on 1 January there, it returns 2024-01-02.
\<close>

theorem getTodayLocal_not_local_date:
  "getTodayLocal 480 1704106800000 = ''2023-12-31'' \<and>
   ymd_string 480 1704106800000 = ''2024-01-01'' \<and>
   getTodayLocal (- 120) 1704144600000 = ''2024-01-02'' \<and>
   ymd_string (- 120) 1704144600000 = ''2024-01-01''"
  by code_simp

section \<open>The seven-day telemetry event\<close>

text \<open>
  A sequence of daily-completion triggers: \<^verbatim>\<open>sendDailyCompletionEvent\<close> is called at each of
  the given clock readings, in order. \<open>d7_events\<close> counts the \<^verbatim>\<open>d7_completion\<close> events that
  were pushed onto the queue.
\<close>

fun daily_triggers ::
    "TelemetryEnv \<Rightarrow> int list \<Rightarrow> TelemetryService \<times> JournalDB \<Rightarrow> TelemetryService \<times> JournalDB" where
  "daily_triggers env [] state = state"
| "daily_triggers env (t # ts) state =
     daily_triggers env ts (sendDailyCompletionEvent (env\<lparr>env_now := t\<rparr>) state)"

definition d7_events :: "TelemetryService \<times> JournalDB \<Rightarrow> nat" where
  "d7_events state = length (filter (\<lambda>e. eventType e = D7Completion) (eventQueue (fst state)))"

text \<open>
  An opted-in installation on a device eight hours behind UTC, and noon (local time) of
  the \<open>k\<close>-th day after 1 January 2024.
\<close>

definition opted_in_state :: "TelemetryService \<times> JournalDB" where
  "opted_in_state =
     (\<lparr>eventQueue = [], storedQueue = []\<rparr>,
      \<lparr>available = True,
       settings = Some (sample_settings\<lparr>telemetryOptIn := True,
                                         telemetryAnonId := Some ''anon_1704096000000_k3j9x0q2a'',
                                         telemetryActivationSent := Some True\<rparr>),
       prompts = seeded_prompts, entries = [], streakSummary = None\<rparr>)"

definition sample_env :: TelemetryEnv where
  "sample_env = \<lparr>env_now = 0, env_tz = 480, env_random = ''x7f3k2m9q'',
      env_platform = ''Linux'', env_timezone = ''America/Los_Angeles'',
      env_parse = (\<lambda>s. Some 1704096000000)\<rparr>"

definition noon :: "int \<Rightarrow> int" where
  "noon k = 1704139200000 + k * 86400000"

text \<open>
  Claim C5 says that a \<^verbatim>\<open>d7_completion\<close> event is enqueued once, when the count of
  consecutive days reaches 7, and never again. After seven consecutive days (1 to 7
  January) one has been pushed, and the eighth day pushes no second one. But the eighth day
  also writes \<open>d7EventSent = false\<close> (the update sets it to false whenever the count is 7 or
  more), so after a gap (9 January) the seventh day of the next run (10 to 16 January)
  pushes a second \<^verbatim>\<open>d7_completion\<close>.
\<close>

theorem d7_completion_enqueued_twice:
  "d7_events (daily_triggers sample_env (map noon [0, 1, 2, 3, 4, 5, 6]) opted_in_state) = 1 \<and>
   d7_events (daily_triggers sample_env (map noon [0, 1, 2, 3, 4, 5, 6, 7]) opted_in_state) = 1 \<and>
   d7_events (daily_triggers sample_env
      (map noon [0, 1, 2, 3, 4, 5, 6, 7, 9, 10, 11, 12, 13, 14, 15]) opted_in_state) = 2"
  by code_simp

section \<open>Prompt scheduler properties\<close>

text \<open>
  Claim C6. When \<open>swapUsedDate\<close> already is today's calendar date, \<^verbatim>\<open>swapTodayPrompt\<close>
  returns a failure and the store, with \<open>swapUsedDate\<close>, \<open>lastPromptId\<close>, \<open>lastPromptDate\<close>
  and every other settings field, is what it was.
\<close>

theorem swapTodayPrompt_second_swap_rejected:
  assumes "settings db = Some st" and "swapUsedDate st = Some (getTodayString tz now)"
  shows "\<not> success (fst (swapTodayPrompt tz now inst rnd db)) \<and>
         error (fst (swapTodayPrompt tz now inst rnd db)) \<noteq> None \<and>
         snd (swapTodayPrompt tz now inst rnd db) = db"
proof (cases "available db")
  case True
  with assms have "swapTodayPrompt_try tz now inst rnd db =
      Inr (swap_failure ''You can only swap once per day. Try again tomorrow.'', db)"
    by (simp add: swapTodayPrompt_try_def canSwapToday_def getTodayString_def)
  then show ?thesis by (simp add: swapTodayPrompt_def swap_failure_def)
next
  case False
  then have "swapTodayPrompt_try tz now inst rnd db = Inl StorageError"
    by (simp add: swapTodayPrompt_try_def)
  then show ?thesis by (simp add: swapTodayPrompt_def swap_failure_def)
qed

text \<open>
  On 1 January 2024 (UTC-8), with a swap to seed-7 already recorded for that day, a second
  swap fails and changes nothing.
\<close>

definition swapped_db :: JournalDB where
  "swapped_db =
     \<lparr>available = True,
      settings = Some (sample_settings\<lparr>swapUsedDate := Some ''2024-01-01'',
                                        lastPromptDate := Some ''2024-01-01'',
                                        lastPromptId := Some ''seed-7''\<rparr>),
      prompts = seeded_prompts, entries = [],
      streakSummary = Some \<lparr>k_id = ''main'', start_date = ''2024-01-01T08:00:00.000Z'',
         current_streak = 0, longest_streak = 0, last_entry_date = None\<rparr>\<rparr>"

theorem swapTodayPrompt_second_swap_rejected_witness:
  "\<not> success (fst (swapTodayPrompt 480 1704096000000 (Some 1704096000000) 3 swapped_db)) \<and>
   error (fst (swapTodayPrompt 480 1704096000000 (Some 1704096000000) 3 swapped_db)) \<noteq> None \<and>
   snd (swapTodayPrompt 480 1704096000000 (Some 1704096000000) 3 swapped_db) = swapped_db"
proof -
  have t: "getTodayString 480 1704096000000 = ''2024-01-01''" by code_simp
  have h1: "settings swapped_db = Some (sample_settings\<lparr>swapUsedDate := Some ''2024-01-01'',
      lastPromptDate := Some ''2024-01-01'', lastPromptId := Some ''seed-7''\<rparr>)"
    by (simp add: swapped_db_def)
  have h2: "swapUsedDate (sample_settings\<lparr>swapUsedDate := Some ''2024-01-01'',
      lastPromptDate := Some ''2024-01-01'', lastPromptId := Some ''seed-7''\<rparr>) =
      Some (getTodayString 480 1704096000000)"
    by (simp add: t)
  show ?thesis by (rule swapTodayPrompt_second_swap_rejected [OF h1 h2])
qed

text \<open>
  Where \<^verbatim>\<open>getCurrentPrompt\<close> does return a prompt: when the store throws (the fallback), and
  when the install date is not after the clock reading.
\<close>

lemma getCurrentPrompt_store_unavailable:
  "\<not> available db \<Longrightarrow>
     getCurrentPrompt tz now inst db = Some (getFallbackPrompt now inst)"
  by (simp add: getCurrentPrompt_def getCurrentPrompt_try_def)

lemma js_rem_range:
  assumes "0 \<le> a" and "0 < b"
  shows "\<exists>r. js_rem a b = Some r \<and> 0 \<le> r \<and> r < b"
proof -
  from assms have e: "js_rem a b = Some (sgn a * (a mod b))" by (simp add: js_rem_def)
  have "0 \<le> sgn a * (a mod b) \<and> sgn a * (a mod b) < b"
  proof (cases "a = 0")
    case True
    with assms(2) show ?thesis by simp
  next
    case False
    with assms(1) have "sgn a = 1" by simp
    with assms(2) show ?thesis by simp
  qed
  with e show ?thesis by simp
qed

lemma pseudoRandom_nonneg:
  assumes "0 \<le> d"
  shows "\<exists>x. pseudoRandom (Some d) = Some x \<and> 0 \<le> x"
proof -
  have "0 \<le> 1664525 * d + 1013904223" using assms by simp
  moreover have "(0::int) < 2 ^ 32" by simp
  ultimately obtain r where "js_rem (1664525 * d + 1013904223) (2 ^ 32) = Some r" "0 \<le> r"
    using js_rem_range by blast
  then show ?thesis by (simp only: pseudoRandom_def option.case) blast
qed

lemma getTodayPrompt_installed_in_past:
  assumes "t \<le> now" and "getTodayPrompt now (Some t) ps = Inr r"
  shows "r \<noteq> None"
proof -
  define seedPrompts where "seedPrompts = filter (\<lambda>p. source p = Seed \<and> \<not> archived p) ps"
  have ne: "length seedPrompts \<noteq> 0"
  proof
    assume "length seedPrompts = 0"
    then have "getTodayPrompt now (Some t) ps = Inl NoSeedPrompts"
      unfolding getTodayPrompt_def seedPrompts_def [symmetric] Let_def by (simp only: simp_thms if_True)
    with assms(2) show False by simp
  qed
  define d where "d = (now - t) div (1000 * 60 * 60 * 24)"
  from assms(1) have d: "0 \<le> d" by (simp add: d_def)
  have dd: "daysSinceInstall now (Some t) = Some d"
    by (simp add: daysSinceInstall_def d_def)
  from pseudoRandom_nonneg [OF d] obtain x where x: "pseudoRandom (Some d) = Some x" "0 \<le> x"
    by blast
  from ne have "0 < int (length seedPrompts)" by simp
  from js_rem_range [OF x(2) this] obtain i where
    i: "js_rem x (int (length seedPrompts)) = Some i" "0 \<le> i" "i < int (length seedPrompts)"
    by blast
  have "getTodayPrompt now (Some t) ps = Inr (js_index seedPrompts (Some i))"
    unfolding getTodayPrompt_def seedPrompts_def [symmetric] Let_def dd x(1)
    using ne i(1) by (simp only: if_False option.case)
  with assms(2) have "r = js_index seedPrompts (Some i)" by simp
  with i(2,3) show ?thesis by (simp add: js_index_def)
qed

lemma getCurrentPrompt_installed_in_past:
  assumes "t \<le> now"
  shows "getCurrentPrompt tz now (Some t) db \<noteq> None"
proof (cases "getCurrentPrompt_try tz now (Some t) db")
  case (Inl e)
  then show ?thesis by (simp add: getCurrentPrompt_def)
next
  case (Inr r)
  have "r \<noteq> None"
  proof (cases "available db")
    case False
    with Inr show ?thesis by (simp add: getCurrentPrompt_try_def)
  next
    case True
    define swapped where "swapped =
      (case settings db of
         None \<Rightarrow> None
       | Some st \<Rightarrow>
           if swapUsedDate st = Some (getTodayString tz now) \<and> truthy (lastPromptId st)
           then find (\<lambda>p. Some (p_id p) = lastPromptId st) (prompts db)
           else None)"
    from True Inr have c: "(case swapped of
         Some swappedPrompt \<Rightarrow> Inr (Some swappedPrompt)
       | None \<Rightarrow> getTodayPrompt now (Some t) (prompts db)) = Inr r"
      unfolding getCurrentPrompt_try_def Let_def swapped_def by simp
    show ?thesis
    proof (cases swapped)
      case None
      with c have "getTodayPrompt now (Some t) (prompts db) = Inr r" by simp
      then show ?thesis by (rule getTodayPrompt_installed_in_past [OF assms])
    next
      case (Some p)
      with c show ?thesis by auto
    qed
  qed
  with Inr show ?thesis by (simp add: getCurrentPrompt_def)
qed

text \<open>
  Claim C7 says that \<^verbatim>\<open>getCurrentPrompt\<close> returns a prompt for every storage outcome and
  every install date. It does not when the install date lies more than 609 days after the
  clock reading: \<open>daysSinceInstall\<close> is negative, the generator's remainder is negative, the
  index is negative, and \<^verbatim>\<open>seedPrompts[index]\<close> is \<^verbatim>\<open>undefined\<close>, which the function returns
  without an exception, so that the fallback never runs. Here the store is readable and
  seeded, the clock reads 2024-01-01T08:00:00Z and the install date is 2026-01-01T08:00:00Z
  (a device whose clock was set back): the days are -731, the generator gives -202863552,
  the index is -2.
\<close>

definition seeded_db :: JournalDB where
  "seeded_db =
     \<lparr>available = True,
      settings = Some (sample_settings\<lparr>installAt := ''2026-01-01T08:00:00.000Z''\<rparr>),
      prompts = seeded_prompts, entries = [], streakSummary = None\<rparr>"

theorem getCurrentPrompt_undefined_for_future_install:
  "toISOString 1767254400000 = ''2026-01-01T08:00:00.000Z'' \<and>
   daysSinceInstall 1704096000000 (Some 1767254400000) = Some (- 731) \<and>
   pseudoRandom (Some (- 731)) = Some (- 202863552) \<and>
   js_rem (- 202863552) 10 = Some (- 2) \<and>
   getCurrentPrompt 480 1704096000000 (Some 1767254400000) seeded_db = None"
  by code_simp

section \<open>PIN hashing round trip\<close>

lemma b64_value_char: "0 \<le> n \<Longrightarrow> n < 64 \<Longrightarrow> b64_value (b64_char n) = Some n"
proof -
  assume n: "0 \<le> n" "n < 64"
  have p: "(of_char CHR ''+'' :: int) = 43" "(of_char CHR ''/'' :: int) = 47" by simp_all
  consider "n < 26" | "26 \<le> n" "n < 52" | "52 \<le> n" "n < 62" | "n = 62" | "n = 63"
    using n by linarith
  then show ?thesis
  proof cases
    case 1
    with n show ?thesis by (simp add: b64_char_def b64_value_def)
  next
    case 2
    then show ?thesis by (simp add: b64_char_def b64_value_def)
  next
    case 3
    then show ?thesis by (simp add: b64_char_def b64_value_def)
  next
    case 4
    then show ?thesis by (simp add: b64_char_def b64_value_def p)
  next
    case 5
    then show ?thesis by (simp add: b64_char_def b64_value_def p)
  qed
qed

lemma b64_char_code: "0 \<le> n \<Longrightarrow> n < 64 \<Longrightarrow> 43 \<le> (of_char (b64_char n) :: int) \<and> (of_char (b64_char n) :: int) \<noteq> 61"
proof -
  assume n: "0 \<le> n" "n < 64"
  have p: "(of_char CHR ''+'' :: int) = 43" "(of_char CHR ''/'' :: int) = 47" by simp_all
  consider "n < 26" | "26 \<le> n" "n < 52" | "52 \<le> n" "n < 62" | "n = 62" | "n = 63"
    using n by linarith
  then show ?thesis
  proof cases
    case 1
    with n show ?thesis by (simp add: b64_char_def)
  next
    case 2
    then show ?thesis by (simp add: b64_char_def)
  next
    case 3
    then show ?thesis by (simp add: b64_char_def)
  next
    case 4
    then show ?thesis by (simp add: b64_char_def p)
  next
    case 5
    then show ?thesis by (simp add: b64_char_def p)
  qed
qed

lemma b64_char_not_pad: "0 \<le> n \<Longrightarrow> n < 64 \<Longrightarrow> b64_char n \<noteq> CHR ''=''"
proof
  assume n: "0 \<le> n" "n < 64" and e: "b64_char n = CHR ''=''"
  from e have "(of_char (b64_char n) :: int) = of_char CHR ''=''" by simp
  with b64_char_code [OF n] show False by simp
qed

lemma b64_char_not_space: "0 \<le> n \<Longrightarrow> n < 64 \<Longrightarrow> \<not> ascii_whitespace (b64_char n)"
  using b64_char_code [of n] by (auto simp: ascii_whitespace_def)

lemma pad_not_space: "\<not> ascii_whitespace CHR ''=''"
  by (simp add: ascii_whitespace_def)

text \<open>A list of byte values.\<close>

definition is_bytes :: "int list \<Rightarrow> bool" where
  "is_bytes xs \<longleftrightarrow> (\<forall>x \<in> set xs. 0 \<le> x \<and> x < 256)"

lemma sextets:
  fixes a b c :: int
  assumes "0 \<le> a" "a < 256" "0 \<le> b" "b < 256" "0 \<le> c" "c < 256"
  shows "0 \<le> a div 4 \<and> a div 4 < 64"
    and "0 \<le> (a mod 4) * 16 + b div 16 \<and> (a mod 4) * 16 + b div 16 < 64"
    and "0 \<le> (b mod 16) * 4 + c div 64 \<and> (b mod 16) * 4 + c div 64 < 64"
    and "0 \<le> c mod 64 \<and> c mod 64 < 64"
    and "0 \<le> (a mod 4) * 16 \<and> (a mod 4) * 16 < 64"
    and "0 \<le> (b mod 16) * 4 \<and> (b mod 16) * 4 < 64"
  using assms by auto

lemma octets:
  fixes a b c :: int
  assumes "0 \<le> a" "a < 256" "0 \<le> b" "b < 256" "0 \<le> c" "c < 256"
  shows "a div 4 * 4 + ((a mod 4) * 16 + b div 16) div 16 = a"
    and "(((a mod 4) * 16 + b div 16) mod 16) * 16 + ((b mod 16) * 4 + c div 64) div 4 = b"
    and "(((b mod 16) * 4 + c div 64) mod 4) * 64 + c mod 64 = c"
    and "a div 4 * 4 + ((a mod 4) * 16) div 16 = a"
    and "(((a mod 4) * 16 + b div 16) mod 16) * 16 + ((b mod 16) * 4) div 4 = b"
  using assms by auto


lemma of_char_range: "0 \<le> (of_char ch :: int) \<and> (of_char ch :: int) < 256"
  using pos_mod_sign [of 256 "of_char ch :: int"] pos_mod_bound [of 256 "of_char ch :: int"]
  by simp

lemma atob_btoa_groups: "is_bytes xs \<Longrightarrow> atob_groups (btoa_groups xs) = Some xs"
proof (induction xs rule: btoa_groups.induct)
  case (1 a b c rest)
  then have r: "0 \<le> a" "a < 256" "0 \<le> b" "b < 256" "0 \<le> c" "c < 256"
    and rest: "is_bytes rest"
    by (simp_all add: is_bytes_def)
  note s = sextets [OF r]
  have v: "b64_value (b64_char (a div 4)) = Some (a div 4)"
    "b64_value (b64_char ((a mod 4) * 16 + b div 16)) = Some ((a mod 4) * 16 + b div 16)"
    "b64_value (b64_char ((b mod 16) * 4 + c div 64)) = Some ((b mod 16) * 4 + c div 64)"
    "b64_value (b64_char (c mod 64)) = Some (c mod 64)"
    using s by (simp_all add: b64_value_char)
  have np: "b64_char ((b mod 16) * 4 + c div 64) \<noteq> CHR ''=''" "b64_char (c mod 64) \<noteq> CHR ''=''"
    using s by (simp_all add: b64_char_not_pad)
  from "1.IH" [OF rest] have ih: "atob_groups (btoa_groups rest) = Some rest" .
  show ?case
    by (simp only: btoa_groups.simps append_Cons append_Nil atob_groups.simps np v ih
          simp_thms if_False prod.case option.case octets(1-3) [OF r])
next
  case (2 a b)
  then have r: "0 \<le> a" "a < 256" "0 \<le> b" "b < 256" by (simp_all add: is_bytes_def)
  have r0: "(0::int) \<le> 0" "(0::int) < 256" by simp_all
  note s = sextets [OF r r0]
  have v: "b64_value (b64_char (a div 4)) = Some (a div 4)"
    "b64_value (b64_char ((a mod 4) * 16 + b div 16)) = Some ((a mod 4) * 16 + b div 16)"
    "b64_value (b64_char ((b mod 16) * 4)) = Some ((b mod 16) * 4)"
    using s by (simp_all add: b64_value_char)
  have np: "b64_char ((b mod 16) * 4) \<noteq> CHR ''=''"
    using s by (simp add: b64_char_not_pad)
  show ?case
    by (simp only: btoa_groups.simps atob_groups.simps np v
          simp_thms if_False if_True prod.case option.case octets(1,5) [OF r r0])
next
  case (3 a)
  then have r: "0 \<le> a" "a < 256" by (simp_all add: is_bytes_def)
  have r0: "(0::int) \<le> 0" "(0::int) < 256" by simp_all
  note s = sextets [OF r r0 r0]
  have v: "b64_value (b64_char (a div 4)) = Some (a div 4)"
    "b64_value (b64_char ((a mod 4) * 16)) = Some ((a mod 4) * 16)"
    using s by (simp_all add: b64_value_char)
  show ?case
    by (simp only: btoa_groups.simps atob_groups.simps v
          simp_thms if_True prod.case option.case octets(4) [OF r r0 r0])
next
  case 4
  show ?case by simp
qed

lemma btoa_groups_no_space:
  "is_bytes xs \<Longrightarrow> \<forall>ch \<in> set (btoa_groups xs). \<not> ascii_whitespace ch"
proof (induction xs rule: btoa_groups.induct)
  case (1 a b c rest)
  then have r: "0 \<le> a" "a < 256" "0 \<le> b" "b < 256" "0 \<le> c" "c < 256"
    and rest: "is_bytes rest"
    by (simp_all add: is_bytes_def)
  from sextets [OF r] "1.IH" [OF rest] show ?case
    by (simp add: b64_char_not_space)
next
  case (2 a b)
  then have r: "0 \<le> a" "a < 256" "0 \<le> b" "b < 256" by (simp_all add: is_bytes_def)
  have r0: "(0::int) \<le> 0" "(0::int) < 256" by simp_all
  from sextets [OF r r0] show ?case
    by (simp add: b64_char_not_space pad_not_space)
next
  case (3 a)
  then have r: "0 \<le> a" "a < 256" by (simp_all add: is_bytes_def)
  have r0: "(0::int) \<le> 0" "(0::int) < 256" by simp_all
  from sextets [OF r r0 r0] show ?case
    by (simp add: b64_char_not_space pad_not_space)
next
  case 4
  show ?case by simp
qed

lemma atob_btoa: "atob (btoa binary) = Some binary"
proof -
  have b: "is_bytes (map of_char binary)"
    using of_char_range by (auto simp: is_bytes_def)
  from btoa_groups_no_space [OF b]
  have "filter (\<lambda>ch. \<not> ascii_whitespace ch) (btoa_groups (map of_char binary)) =
        btoa_groups (map of_char binary)"
    by (simp add: filter_id_conv)
  with atob_btoa_groups [OF b] show ?thesis
    by (simp add: atob_def btoa_def comp_def)
qed

lemma byte_of_uint_mod: "(word_of_int (uint b mod 256) :: byte) = b"
proof -
  have "uint b < 256" using uint_bounded [of b] by simp
  then have "uint b mod 256 = uint b" by simp
  then show ?thesis by simp
qed

lemma base64ToArrayBuffer_inverse:
  "base64ToArrayBuffer (arrayBufferToBase64 buffer) = Some buffer"
  by (simp add: base64ToArrayBuffer_def arrayBufferToBase64_def atob_btoa comp_def
        byte_of_uint_mod)

lemma arrayBufferToBase64_inj:
  "arrayBufferToBase64 x = arrayBufferToBase64 y \<Longrightarrow> x = y"
  by (metis base64ToArrayBuffer_inverse option.inject)

lemma encode_inj: "encode p = encode q \<Longrightarrow> p = q"
proof -
  assume e: "encode p = encode q"
  have d: "map (\<lambda>w. char_of (uint w)) (encode s) = s" for s
  proof -
    have "char_of (uint (word_of_int (of_char ch) :: byte)) = ch" for ch :: char
    proof -
      have "uint (word_of_int (of_char ch) :: byte) = of_char ch mod 256"
        by (simp add: uint_word_of_int)
      then show ?thesis by simp
    qed
    then show ?thesis by (simp add: encode_def comp_def)
  qed
  from e have "map (\<lambda>w. char_of (uint w)) (encode p) = map (\<lambda>w. char_of (uint w)) (encode q)"
    by simp
  then show ?thesis by (simp only: d)
qed

lemma xor_int_eq_0_iff: "(a :: int) XOR b = 0 \<longleftrightarrow> a = b"
  by (auto simp: bit_eq_iff bit_xor_iff)

lemma xor_accumulate_eq_0:
  "length a = length b \<Longrightarrow> xor_accumulate r a b = 0 \<longleftrightarrow> r = 0 \<and> a = b"
proof (induction a b arbitrary: r rule: list_induct2)
  case Nil
  show ?case by simp
next
  case (Cons x xs y ys)
  show ?case
    by (simp add: Cons.IH or_eq_0_iff xor_int_eq_0_iff)
qed

lemma constantTimeEquals_iff: "constantTimeEquals a b \<longleftrightarrow> a = b"
proof (cases "length a = length b")
  case True
  then show ?thesis by (simp add: constantTimeEquals_def xor_accumulate_eq_0)
next
  case False
  then show ?thesis by (auto simp: constantTimeEquals_def)
qed

text \<open>
  Claim C8. With PBKDF2 a function of key material, salt and iteration count that gives
  different PINs different keys under the salt and the 100000 iterations of \<^verbatim>\<open>hashPin\<close>:
  for every valid PIN \<open>p\<close> and every salt, \<^verbatim>\<open>verifyPin(p, hashPin(p))\<close> is true, and
  \<^verbatim>\<open>verifyPin(q, hashPin(p))\<close> is false for every valid PIN \<open>q\<close> other than \<open>p\<close>.
\<close>

theorem pin_round_trip:
  assumes inj: "\<And>p q. isValidPin p \<Longrightarrow> isValidPin q \<Longrightarrow>
      kdf (encode p) salt' 100000 = kdf (encode q) salt' 100000 \<Longrightarrow> p = q"
    and p: "isValidPin p"
  shows "verifyPin kdf p (hashPin kdf salt' p) \<and>
         (\<forall>q. isValidPin q \<and> q \<noteq> p \<longrightarrow> \<not> verifyPin kdf q (hashPin kdf salt' p))"
proof -
  have v: "verifyPin kdf x (hashPin kdf salt' p) \<longleftrightarrow>
      kdf (encode x) salt' 100000 = kdf (encode p) salt' 100000" for x
    using arrayBufferToBase64_inj
    by (auto simp: verifyPin_def hashPin_def Let_def base64ToArrayBuffer_inverse
          constantTimeEquals_iff)
  have "kdf (encode q) salt' 100000 \<noteq> kdf (encode p) salt' 100000"
    if "isValidPin q" "q \<noteq> p" for q
  proof
    assume "kdf (encode q) salt' 100000 = kdf (encode p) salt' 100000"
    with that(1) p have "q = p" by (rule inj)
    with that(2) show False by simp
  qed
  with v show ?thesis by simp
qed

text \<open>
  An example with a stand-in for the key derivation (the key material followed by the
  salt; not PBKDF2, but a function that keeps different PINs apart) and a salt of sixteen
  bytes: 1234 verifies against its own hash, 4321 does not.
\<close>

definition sample_kdf :: "byte list \<Rightarrow> byte list \<Rightarrow> int \<Rightarrow> byte list" where
  "sample_kdf key s n = key @ s"

definition sample_salt :: "byte list" where
  "sample_salt = [1, 2, 3, 4, 5, 6, 7, 8, 9, 10, 11, 12, 13, 14, 15, 16]"

theorem pin_round_trip_witness:
  "verifyPin sample_kdf ''1234'' (hashPin sample_kdf sample_salt ''1234'') \<and>
   \<not> verifyPin sample_kdf ''4321'' (hashPin sample_kdf sample_salt ''1234'')"
proof -
  have inj: "\<And>p q. isValidPin p \<Longrightarrow> isValidPin q \<Longrightarrow>
      sample_kdf (encode p) sample_salt 100000 = sample_kdf (encode q) sample_salt 100000 \<Longrightarrow>
      p = q"
    by (simp add: sample_kdf_def encode_inj)
  have p: "isValidPin ''1234''" by (simp add: isValidPin_def)
  have q: "isValidPin ''4321'' \<and> ''4321'' \<noteq> ''1234''" by (simp add: isValidPin_def)
  from pin_round_trip [of sample_kdf sample_salt, OF inj p] q show ?thesis by blast
qed

section \<open>The exported document holds no PIN material\<close>

lemma json_keys_written:
  "json_keys (written v) \<subseteq> json_keys v"
  "json_keys_elems (written_elems vs) \<subseteq> json_keys_elems vs"
  "json_keys_props (written_props ps) \<subseteq> json_keys_props ps"
  by (induction v and vs and ps rule: written_written_elems_written_props.induct) auto

lemma json_keys_elems_map: "json_keys_elems (map f xs) = (\<Union>x \<in> set xs. json_keys (f x))"
  by (induction xs) auto

text \<open>A key of a written object is the name of one of its defined properties, or a key
  inside the written value of one.\<close>

lemma json_keys_written_props:
  assumes "k \<in> json_keys_props (written_props ps)"
  obtains k' v where "(k', v) \<in> set ps" and "v \<noteq> JUndefined"
    and "k = k' \<or> k \<in> json_keys (written v)"
  using assms
proof (induction ps arbitrary: thesis)
  case Nil
  then show ?case by simp
next
  case (Cons p ps)
  obtain k0 v0 where p: "p = (k0, v0)" by (cases p)
  show ?case
  proof (cases "v0 = JUndefined")
    case True
    with Cons.prems(2) p have "k \<in> json_keys_props (written_props ps)" by simp
    then obtain k' v where "(k', v) \<in> set ps" "v \<noteq> JUndefined"
      "k = k' \<or> k \<in> json_keys (written v)"
      by (rule Cons.IH [rotated])
    then show ?thesis using Cons.prems(1) [of k' v] by simp
  next
    case False
    with Cons.prems(2) p
    have "(k = k0 \<or> k \<in> json_keys (written v0)) \<or> k \<in> json_keys_props (written_props ps)"
      by auto
    then show ?thesis
    proof
      assume "k = k0 \<or> k \<in> json_keys (written v0)"
      with False p show ?thesis using Cons.prems(1) [of k0 v0] by simp
    next
      assume "k \<in> json_keys_props (written_props ps)"
      then obtain k' v where "(k', v) \<in> set ps" "v \<noteq> JUndefined"
        "k = k' \<or> k \<in> json_keys (written v)"
        by (rule Cons.IH [rotated])
      then show ?thesis using Cons.prems(1) [of k' v] by simp
    qed
  qed
qed

lemma obj_set_keys: "set (map fst (obj_set k v ps)) = insert k (set (map fst ps))"
proof (induction ps)
  case Nil
  show ?case by simp
next
  case (Cons p ps)
  obtain a b where p: "p = (a, b)" by (cases p)
  show ?case
  proof (cases "a = k")
    case True
    with p show ?thesis by simp
  next
    case False
    with p Cons.IH show ?thesis by (simp add: insert_commute)
  qed
qed

lemma obj_set_distinct: "distinct (map fst ps) \<Longrightarrow> distinct (map fst (obj_set k v ps))"
proof (induction ps)
  case Nil
  then show ?case by simp
next
  case (Cons p ps)
  obtain a b where p: "p = (a, b)" by (cases p)
  from Cons.prems p have na: "a \<notin> set (map fst ps)" and d: "distinct (map fst ps)" by simp_all
  show ?case
  proof (cases "a = k")
    case True
    with Cons.prems p show ?thesis by simp
  next
    case False
    with na have "a \<notin> set (map fst (obj_set k v ps))" by (simp only: obj_set_keys) simp
    with False p Cons.IH [OF d] show ?thesis by simp
  qed
qed

lemma obj_set_member:
  assumes "distinct (map fst ps)" and "(k', v') \<in> set (obj_set k v ps)"
  shows "(k' = k \<and> v' = v) \<or> (k' \<noteq> k \<and> (k', v') \<in> set ps)"
  using assms
proof (induction ps)
  case Nil
  then show ?case by simp
next
  case (Cons p ps)
  obtain a b where p: "p = (a, b)" by (cases p)
  from Cons.prems(1) p have na: "a \<notin> fst ` set ps" and d: "distinct (map fst ps)" by simp_all
  show ?case
  proof (cases "a = k")
    case True
    with Cons.prems(2) p have "(k', v') = (k, v) \<or> (k', v') \<in> set ps" by simp
    then show ?thesis
    proof
      assume "(k', v') = (k, v)"
      then show ?thesis by simp
    next
      assume m: "(k', v') \<in> set ps"
      then have "k' \<in> fst ` set ps" by force
      with na True have "k' \<noteq> k" by blast
      with m show ?thesis by simp
    qed
  next
    case False
    with Cons.prems(2) p have "(k', v') = (a, b) \<or> (k', v') \<in> set (obj_set k v ps)" by simp
    then show ?thesis
    proof
      assume "(k', v') = (a, b)"
      with False p show ?thesis by simp
    next
      assume "(k', v') \<in> set (obj_set k v ps)"
      from Cons.IH [OF d this] show ?thesis by auto
    qed
  qed
qed

lemma opt_json_keys:
  "json_keys (opt_string x) = {}" "json_keys (opt_number y) = {}" "json_keys (opt_bool z) = {}"
  by (cases x; cases y; cases z; simp add: opt_string_def opt_number_def opt_bool_def)+

lemma settings_object_distinct: "distinct (map fst (settings_object st))"
  unfolding settings_object_def present_def
  by (rule distinct_map_filter) simp

lemma settings_object_scalars:
  assumes "(k, v) \<in> set (settings_object st)"
  shows "json_keys v = {}"
proof -
  from assms have "(k, v) \<in> set
       [(''id'', JString (s_id st)),
        (''pinSalt'', opt_string (pinSalt st)),
        (''pinIterations'', opt_number (pinIterations st)),
        (''pinHash'', opt_string (pinHash st)),
        (''lockTimeoutMinutes'', JNumber (lockTimeoutMinutes st)),
        (''dailyCueTime'', opt_string (dailyCueTime st)),
        (''dailyCueEnabled'', JBool (dailyCueEnabled st)),
        (''notificationsEnabled'', JBool (notificationsEnabled st)),
        (''telemetryOptIn'', JBool (telemetryOptIn st)),
        (''telemetryAnonId'', opt_string (telemetryAnonId st)),
        (''telemetryActivationSent'', opt_bool (telemetryActivationSent st)),
        (''telemetryConsecutiveDays'', opt_number (telemetryConsecutiveDays st)),
        (''telemetryLastCompletionDate'', opt_string (telemetryLastCompletionDate st)),
        (''telemetryD7EventSent'', opt_bool (telemetryD7EventSent st)),
        (''swapUsedDate'', opt_string (swapUsedDate st)),
        (''lastPromptDate'', opt_string (lastPromptDate st)),
        (''lastPromptId'', opt_string (lastPromptId st)),
        (''installAt'', JString (installAt st)),
        (''currentTheme'', JString (theme_string (currentTheme st)))]"
    unfolding settings_object_def present_def by (simp only: set_filter mem_Collect_eq)
  then have "json_keys v = {}"
    by (simp only: list.set insert_iff empty_iff prod.inject)
       (elim disjE conjE; simp only: opt_json_keys json_keys.simps)
  then show ?thesis .
qed

text \<open>
  The settings of the export: the three PIN properties hold \<^verbatim>\<open>undefined\<close>, so none of them
  is written.
\<close>

definition pin_fields :: "string set" where
  "pin_fields = {''pinHash'', ''pinSalt'', ''pinIterations''}"

lemma sanitized_settings_keys:
  assumes "k \<in> json_keys_props (written_props
             (obj_set ''pinHash'' JUndefined
               (obj_set ''pinIterations'' JUndefined
                 (obj_set ''pinSalt'' JUndefined (settings_object st)))))"
  shows "k \<notin> pin_fields"
proof -
  let ?s0 = "settings_object st"
  let ?s1 = "obj_set ''pinSalt'' JUndefined ?s0"
  let ?s2 = "obj_set ''pinIterations'' JUndefined ?s1"
  let ?s3 = "obj_set ''pinHash'' JUndefined ?s2"
  have d0: "distinct (map fst ?s0)" by (rule settings_object_distinct)
  then have d1: "distinct (map fst ?s1)" by (rule obj_set_distinct)
  then have d2: "distinct (map fst ?s2)" by (rule obj_set_distinct)
  from assms obtain k' v where kv: "(k', v) \<in> set ?s3" and nu: "v \<noteq> JUndefined"
    and k: "k = k' \<or> k \<in> json_keys (written v)"
    by (rule json_keys_written_props)
  from obj_set_member [OF d2 kv] nu
  have h: "k' \<noteq> ''pinHash''" and a2: "(k', v) \<in> set ?s2" by auto
  from obj_set_member [OF d1 a2] nu
  have i: "k' \<noteq> ''pinIterations''" and a1: "(k', v) \<in> set ?s1" by auto
  from obj_set_member [OF d0 a1] nu
  have s: "k' \<noteq> ''pinSalt''" and a0: "(k', v) \<in> set ?s0" by auto
  from a0 have "json_keys v = {}" by (rule settings_object_scalars)
  with json_keys_written(1) [of v] have "json_keys (written v) = {}" by blast
  with k have "k = k'" by simp
  with h i s show ?thesis by (simp add: pin_fields_def)
qed

text \<open>
  Claim C9. Whatever the store holds, the exported document has no \<open>pinHash\<close>, \<open>pinSalt\<close>
  or \<open>pinIterations\<close> field, at any depth.
\<close>

theorem export_has_no_pin_fields:
  assumes "exportDataWithProgress now db = Inr (doc, meta)"
  shows "''pinHash'' \<notin> json_keys doc \<and> ''pinSalt'' \<notin> json_keys doc \<and>
         ''pinIterations'' \<notin> json_keys doc"
proof -
  define sanitized where "sanitized =
    (case settings db of
       None \<Rightarrow> JNull
     | Some st \<Rightarrow>
         JObject (obj_set ''pinHash'' JUndefined
                   (obj_set ''pinIterations'' JUndefined
                     (obj_set ''pinSalt'' JUndefined (settings_object st)))))"
  define summary where "summary =
    (case streakSummary db of None \<Rightarrow> JUndefined | Some s \<Rightarrow> streak_json s)"
  define es where "es = sort_key e_created_at (entries db)"
  define ENTRY :: "Entry \<Rightarrow> json" where "ENTRY = (\<lambda>entry.
       JObject [(''id'', JString (e_id entry)),
                (''createdAt'', JString (e_created_at entry)),
                (''content'', JObject [(''setback'', JString (setback entry)),
                                       (''protective_step'', JString (protective_step entry)),
                                       (''gratitude'', JString (gratitude entry))]),
                (''metadata'', JObject [(''dateLocal'', JString (dateLocal entry)),
                                        (''prompt_id'', JString (prompt_id entry)),
                                        (''edited_at'', opt_string (edited_at entry)),
                                        (''duration_seconds'',
                                           opt_number (duration_seconds entry))])])"
  define PROMPT :: "Prompt \<Rightarrow> json" where "PROMPT = (\<lambda>p.
       JObject [(''id'', JString (p_id p)),
                (''text'', JString (p_text p)),
                (''gratitude_prompt'', opt_string (gratitude_prompt p)),
                (''archived'', JBool (archived p)),
                (''source'', JString (source_string (source p))),
                (''created_at'', JString (p_created_at p))])"
  define META where "META = JObject [(''appName'', JString ''Negative Visualization Journal''),
                           (''appVersion'', JString ''0.1.0''),
                           (''exportedAt'', JString (toISOString now)),
                           (''entryCount'', JNumber (int (length es)))]"
  have sk: "x \<in> json_keys (written sanitized) \<Longrightarrow> x \<notin> pin_fields" for x
  proof (cases "settings db")
    case None
    assume "x \<in> json_keys (written sanitized)"
    with None show ?thesis by (simp add: sanitized_def)
  next
    case (Some st)
    assume "x \<in> json_keys (written sanitized)"
    with Some show ?thesis by (simp add: sanitized_def sanitized_settings_keys)
  qed
  have ek: "x \<in> json_keys (ENTRY e) \<Longrightarrow> x \<notin> pin_fields" for x e
    by (auto simp: ENTRY_def opt_json_keys pin_fields_def)
  have pk: "x \<in> json_keys (PROMPT p) \<Longrightarrow> x \<notin> pin_fields" for x p
    by (auto simp: PROMPT_def opt_json_keys pin_fields_def)
  have mk: "x \<in> json_keys META \<Longrightarrow> x \<notin> pin_fields" for x
    by (auto simp: META_def pin_fields_def)
  have kk: "x \<in> json_keys summary \<Longrightarrow> x \<notin> pin_fields" for x
    by (cases "streakSummary db"; cases "last_entry_date (the (streakSummary db))")
       (auto simp: summary_def streak_json_def pin_fields_def)
  have arr: "x \<in> json_keys (written (JArray (map f xs))) \<Longrightarrow> \<exists>y \<in> set xs. x \<in> json_keys (f y)"
    for x and f :: "'a \<Rightarrow> json" and xs
    using json_keys_written(2) [of "map f xs"] by (auto simp: json_keys_elems_map)
  from assms have av: "available db"
    by (auto simp: exportDataWithProgress_def split: if_splits)
  with assms have doc: "doc = written (JObject
      [(''meta'', META), (''entries'', JArray (map ENTRY es)), (''settings'', sanitized),
       (''prompts'', JArray (map PROMPT (prompts db))), (''streakSummary'', summary)])"
    by (simp add: exportDataWithProgress_def Let_def es_def ENTRY_def PROMPT_def META_def
          sanitized_def summary_def)
  have "x \<notin> pin_fields" if x: "x \<in> json_keys doc" for x
  proof -
    from x have "x \<in> json_keys_props (written_props
      [(''meta'', META), (''entries'', JArray (map ENTRY es)), (''settings'', sanitized),
       (''prompts'', JArray (map PROMPT (prompts db))), (''streakSummary'', summary)])"
      by (simp only: doc written.simps json_keys.simps)
    then obtain k' v where kv: "(k', v) \<in> set
      [(''meta'', META), (''entries'', JArray (map ENTRY es)), (''settings'', sanitized),
       (''prompts'', JArray (map PROMPT (prompts db))), (''streakSummary'', summary)]"
      and k: "x = k' \<or> x \<in> json_keys (written v)"
      by (rule json_keys_written_props)
    from kv have "(k' = ''meta'' \<and> v = META) \<or>
        (k' = ''entries'' \<and> v = JArray (map ENTRY es)) \<or>
        (k' = ''settings'' \<and> v = sanitized) \<or>
        (k' = ''prompts'' \<and> v = JArray (map PROMPT (prompts db))) \<or>
        (k' = ''streakSummary'' \<and> v = summary)"
      by (simp only: list.set insert_iff empty_iff prod.inject simp_thms)
    then show ?thesis
    proof (elim disjE conjE)
      assume c: "k' = ''meta''" "v = META"
      have "''meta'' \<notin> pin_fields" by (simp add: pin_fields_def)
      with c k mk json_keys_written(1) [of META] show ?thesis by blast
    next
      assume c: "k' = ''entries''" "v = JArray (map ENTRY es)"
      have "''entries'' \<notin> pin_fields" by (simp add: pin_fields_def)
      with c k arr [of x ENTRY es] ek show ?thesis by blast
    next
      assume c: "k' = ''settings''" "v = sanitized"
      have "''settings'' \<notin> pin_fields" by (simp add: pin_fields_def)
      with c k sk show ?thesis by blast
    next
      assume c: "k' = ''prompts''" "v = JArray (map PROMPT (prompts db))"
      have "''prompts'' \<notin> pin_fields" by (simp add: pin_fields_def)
      with c k arr [of x PROMPT "prompts db"] pk show ?thesis by blast
    next
      assume c: "k' = ''streakSummary''" "v = summary"
      have "''streakSummary'' \<notin> pin_fields" by (simp add: pin_fields_def)
      with c k kk json_keys_written(1) [of summary] show ?thesis by blast
    qed
  qed
  then show ?thesis by (auto simp: pin_fields_def)
qed

text \<open>
  An installation with a PIN configured: the export succeeds and the document has none of
  the three fields.
\<close>

definition pin_db :: JournalDB where
  "pin_db =
     \<lparr>available = True,
      settings = Some (sample_settings\<lparr>pinSalt := Some ''c2FsdHNhbHRzYWx0c2FsdA=='',
                                        pinIterations := Some 100000,
                                        pinHash := Some ''aGFzaGhhc2hoYXNoaGFzaGhhc2hoYXNoaGFzaGhhc2g=''\<rparr>),
      prompts = [seed_row 0],
      entries = [sample_entry\<lparr>dateLocal := ''2024-01-01''\<rparr>],
      streakSummary = Some first_day_summary\<rparr>"

theorem export_has_no_pin_fields_witness:
  "\<exists>doc meta. exportDataWithProgress 1704096000000 pin_db = Inr (doc, meta) \<and>
     ''pinHash'' \<notin> json_keys doc \<and> ''pinSalt'' \<notin> json_keys doc \<and>
     ''pinIterations'' \<notin> json_keys doc"
proof -
  have "available pin_db" by (simp add: pin_db_def)
  then obtain doc meta where e: "exportDataWithProgress 1704096000000 pin_db = Inr (doc, meta)"
    by (simp add: exportDataWithProgress_def Let_def)
  from export_has_no_pin_fields [OF e] e show ?thesis by blast
qed

section \<open>The streak reset and its backup\<close>

text \<open>
  What \<^verbatim>\<open>resetStreakData\<close> does when the store answers: the summary becomes the zero
  summary with a new start date, the prompts and the entries stay, and the settings row is
  what it was in every field but \<open>lastPromptId\<close>.
\<close>

lemma resetStreakData_effect:
  assumes "available db"
  shows "fst (resetStreakData now db) = True \<and>
         streakSummary (snd (resetStreakData now db)) =
           Some \<lparr>k_id = ''main'', start_date = toISOString now, current_streak = 0,
                  longest_streak = 0, last_entry_date = None\<rparr> \<and>
         prompts (snd (resetStreakData now db)) = prompts db \<and>
         entries (snd (resetStreakData now db)) = entries db \<and>
         map_option (\<lambda>st. st\<lparr>lastPromptId := None\<rparr>) (settings (snd (resetStreakData now db))) =
           map_option (\<lambda>st. st\<lparr>lastPromptId := None\<rparr>) (settings db)"
  using assms
  by (simp add: resetStreakData_def Let_def split: option.splits)
text \<open>
  Claim C10 says that the backup goes into a settings field that no other core operation
  reads. The field is \<open>lastPromptId\<close>, which \<^verbatim>\<open>getCurrentPrompt\<close> reads to find the prompt
  swapped in today (and \<^verbatim>\<open>swapTodayPrompt\<close> reads to keep the last prompt out of the draw).
  On 1 January 2024, with a swap to seed-7 recorded for that day, the current prompt is
  seed-7; after \<^verbatim>\<open>resetStreakData\<close> the field holds the backup string, no prompt has that
  id, and the current prompt is the day's default, seed-3.
\<close>

theorem resetStreakData_backup_overwrites_swap:
  "map_option p_id (getCurrentPrompt 480 1704096000000 (Some 1704096000000) swapped_db) =
     Some ''seed-7'' \<and>
   fst (resetStreakData 1704096000000 swapped_db) = True \<and>
   map_option lastPromptId (settings (snd (resetStreakData 1704096000000 swapped_db))) =
     Some (Some ''backup_streak_1704096000000_{\"id\":\"main\",\"start_date\":\"2024-01-01T08:00:00.000Z\",\"current_streak\":0,\"longest_streak\":0}'') \<and>
   map_option p_id (getCurrentPrompt 480 1704096000000 (Some 1704096000000)
       (snd (resetStreakData 1704096000000 swapped_db))) =
     Some ''seed-3''"
  by code_simp

end
